theory Spec2Isabelle
  imports Main "HOL-Library.Char_ord" "HOL-Library.List_Lexorder"
begin

section \<open>Python values used by \<open>pythonbuild/buildenv.py\<close>\<close>

text \<open>
  Exceptions are values: every \<open>raise\<close> of the source, and every exception of the Python
  library that a modelled call can raise, is a constructor. \<open>External\<close> stands for a failure
  reported by a collaborator (the Docker client, a subprocess).
\<close>

datatype exn =
    KeyError string
  | Exception string
  | FileNotFoundError
  | IsADirectoryError
  | NotADirectoryError
  | AttributeError
  | IndexError
  | UnicodeDecodeError
  | ValueError
  | OSError string
  | External string

text \<open>A call that fails does not run what follows it.\<close>

definition and_then :: "exn + 'a \<Rightarrow> ('a \<Rightarrow> exn + 'b) \<Rightarrow> exn + 'b" where
  "and_then r f = (case r of Inl e \<Rightarrow> Inl e | Inr x \<Rightarrow> f x)"

text \<open>
  The \<open>program\<close> argument of \<open>run\<close> is either one string or an argument list; the source
  tells them apart with \<open>isinstance(program, str)\<close>.
\<close>

datatype program = PStr string | PList "string list"

text \<open>Python's \<open>x or y\<close> on an optional string: \<open>None\<close> and the empty string are falsy.\<close>

definition or_else :: "string option \<Rightarrow> string \<Rightarrow> string" where
  "or_else x y = (case x of None \<Rightarrow> y | Some s \<Rightarrow> if s = [] then y else s)"

definition startswith :: "string \<Rightarrow> string \<Rightarrow> bool" where
  "startswith s p = (take (length p) s = p)"

subsection \<open>\<open>pathlib\<close> paths\<close>

text \<open>
  A \<open>pathlib.PurePosixPath\<close>: whether it has the root \<open>/\<close>, and its components. Parsing a
  string splits it at \<open>/\<close> and drops empty and \<open>.\<close> components; \<open>..\<close> is kept. (The
  POSIX special case of exactly two leading slashes is not distinguished from one.)
\<close>

record pure_path =
  is_abs :: bool
  comps :: "string list"

fun split_on :: "char \<Rightarrow> string \<Rightarrow> string list" where
  "split_on s [] = [[]]"
| "split_on s (c # cs) =
     (if c = s then [] # split_on s cs
      else (case split_on s cs of [] \<Rightarrow> [[c]] | w # ws \<Rightarrow> (c # w) # ws))"

fun join_with :: "string \<Rightarrow> string list \<Rightarrow> string" where
  "join_with s [] = []"
| "join_with s [x] = x"
| "join_with s (x # y # ys) = x @ s @ join_with s (y # ys)"

definition Path :: "string \<Rightarrow> pure_path" where
  "Path s = \<lparr> is_abs = startswith s ''/'',
              comps = filter (\<lambda>x. x \<noteq> [] \<and> x \<noteq> ''.'') (split_on CHR ''/'' s) \<rparr>"

text \<open>\<open>a / b\<close>: an absolute right operand replaces the left one.\<close>

definition path_div :: "pure_path \<Rightarrow> string \<Rightarrow> pure_path" where
  "path_div a s = (let b = Path s in
     if is_abs b then b else \<lparr> is_abs = is_abs a, comps = comps a @ comps b \<rparr>)"

definition path_str :: "pure_path \<Rightarrow> string" where
  "path_str p =
     (if is_abs p then ''/'' @ join_with ''/'' (comps p)
      else if comps p = [] then ''.'' else join_with ''/'' (comps p))"

text \<open>\<open>p.name\<close>: the final component, empty when there is none.\<close>

definition path_name :: "pure_path \<Rightarrow> string" where
  "path_name p = (if comps p = [] then [] else last (comps p))"

text \<open>\<open>p.parts[-1]\<close>: the root is itself a part; an empty relative path has no parts.\<close>

definition parts_last :: "pure_path \<Rightarrow> exn + string" where
  "parts_last p =
     (if comps p \<noteq> [] then Inr (last (comps p))
      else if is_abs p then Inr ''/'' else Inl IndexError)"

section \<open>The package metadata table (\<open>pythonbuild/downloads.py\<close>)\<close>

text \<open>
  \<open>DOWNLOADS\<close> maps a package name to its entry. \<open>buildenv.py\<close> reads only the
  \<open>version\<close> key of an entry, which every entry has; the other keys (url, size, sha256,
  licences) are left out.
\<close>

record download_entry =
  version :: string

definition DOWNLOADS :: "(string \<times> download_entry) list" where
  "DOWNLOADS =
   [(''autoconf'', \<lparr>version = ''2.69''\<rparr>),
    (''bdb'', \<lparr>version = ''6.0.19''\<rparr>),
    (''binutils'', \<lparr>version = ''2.38''\<rparr>),
    (''bzip2'', \<lparr>version = ''1.0.8''\<rparr>),
    (''cpython-3.8'', \<lparr>version = ''3.8.16''\<rparr>),
    (''cpython-3.9'', \<lparr>version = ''3.9.16''\<rparr>),
    (''cpython-3.10'', \<lparr>version = ''3.10.9''\<rparr>),
    (''gdbm'', \<lparr>version = ''1.21''\<rparr>),
    (''inputproto'', \<lparr>version = ''2.3.2''\<rparr>),
    (''jom-windows-bin'', \<lparr>version = ''1.1.3''\<rparr>),
    (''kbproto'', \<lparr>version = ''1.0.7''\<rparr>),
    (''libedit'', \<lparr>version = ''20210910-3.1''\<rparr>),
    (''libffi'', \<lparr>version = ''3.3''\<rparr>),
    (''libpthread-stubs'', \<lparr>version = ''0.1''\<rparr>),
    (''libX11'', \<lparr>version = ''1.6.8''\<rparr>),
    (''libXau'', \<lparr>version = ''1.0.7''\<rparr>),
    (''libxcb'', \<lparr>version = ''1.13.1''\<rparr>),
    (''llvm-x86_64-linux'', \<lparr>version = ''14.0.3+20220508''\<rparr>),
    (''llvm-aarch64-macos'', \<lparr>version = ''14.0.3+20220508''\<rparr>),
    (''llvm-x86_64-macos'', \<lparr>version = ''14.0.3+20220508''\<rparr>),
    (''m4'', \<lparr>version = ''1.4.19''\<rparr>),
    (''mpdecimal'', \<lparr>version = ''2.5.1''\<rparr>),
    (''musl'', \<lparr>version = ''1.2.3''\<rparr>),
    (''ncurses'', \<lparr>version = ''6.3''\<rparr>),
    (''openssl'', \<lparr>version = ''1.1.1s''\<rparr>),
    (''nasm-windows-bin'', \<lparr>version = ''2.11.06''\<rparr>),
    (''patchelf'', \<lparr>version = ''0.12''\<rparr>),
    (''pip'', \<lparr>version = ''22.3.1''\<rparr>),
    (''readline'', \<lparr>version = ''8.2''\<rparr>),
    (''setuptools'', \<lparr>version = ''65.6.3''\<rparr>),
    (''sqlite'', \<lparr>version = ''3400000''\<rparr>),
    (''strawberryperl'', \<lparr>version = ''5.28.1.1''\<rparr>),
    (''tcl'', \<lparr>version = ''8.6.12''\<rparr>),
    (''tix'', \<lparr>version = ''8.4.3.6''\<rparr>),
    (''tk'', \<lparr>version = ''8.6.12''\<rparr>),
    (''tk-windows-bin'', \<lparr>version = ''8.6.12''\<rparr>),
    (''uuid'', \<lparr>version = ''1.0.3''\<rparr>),
    (''x11-util-macros'', \<lparr>version = ''1.19.2''\<rparr>),
    (''xcb-proto'', \<lparr>version = ''1.14.1''\<rparr>),
    (''xextproto'', \<lparr>version = ''7.3.0''\<rparr>),
    (''xorgproto'', \<lparr>version = ''2019.1''\<rparr>),
    (''xproto'', \<lparr>version = ''7.0.31''\<rparr>),
    (''xtrans'', \<lparr>version = ''1.4.0''\<rparr>),
    (''xz'', \<lparr>version = ''5.2.9''\<rparr>),
    (''zlib'', \<lparr>version = ''1.2.13''\<rparr>)]"

text \<open>\<open>DOWNLOADS[package_name]\<close>: a missing key raises \<open>KeyError\<close>.\<close>

definition DOWNLOADS_getitem :: "string \<Rightarrow> exn + download_entry" where
  "DOWNLOADS_getitem package_name =
     (case map_of DOWNLOADS package_name of
        None \<Rightarrow> Inl (KeyError package_name)
      | Some entry \<Rightarrow> Inr entry)"

section \<open>The two build contexts\<close>

text \<open>
  The helpers of \<open>pythonbuild/docker.py\<close> and \<open>pythonbuild/utils.py\<close> that the contexts
  call (\<open>copy_file_to_container\<close>, \<open>container_exec\<close>, \<open>extract_tar_to_directory\<close>,
  \<open>exec_and_log\<close>, \<open>clang_toolchain\<close>) are parameters of the definitions below: each
  takes its arguments and the state of the world \<open>'w\<close> and returns the new state or the
  exception it raised. Calls to \<open>log\<close> only print and are left out. The attribute
  \<open>tools_path\<close> of the two classes is \<open>cc_tools_path\<close> and \<open>tc_tools_path\<close> here.
\<close>

record 'c ContainerContext =
  container :: 'c
  cc_tools_path :: string

record TempdirContext =
  td :: pure_path
  tc_tools_path :: string

definition ContainerContext_init :: "'c \<Rightarrow> 'c ContainerContext" where
  "ContainerContext_init c = \<lparr> container = c, cc_tools_path = ''/tools'' \<rparr>"

definition TempdirContext_init :: "string \<Rightarrow> TempdirContext" where
  "TempdirContext_init d =
     \<lparr> td = Path d, tc_tools_path = path_str (path_div (Path d) ''tools'') \<rparr>"

subsection \<open>Command runner\<close>

definition ContainerContext_run ::
  "('c \<Rightarrow> program \<Rightarrow> string \<Rightarrow> 'e option \<Rightarrow> 'w \<Rightarrow> exn + 'w) \<Rightarrow>
   'c ContainerContext \<Rightarrow> program \<Rightarrow> string \<Rightarrow> 'e option \<Rightarrow> 'w \<Rightarrow> exn + 'w" where
  "ContainerContext_run container_exec self prog user environment w =
     (let prog' = (case prog of
                     PStr s \<Rightarrow> if \<not> startswith s ''/'' then PStr (''/build/'' @ s) else PStr s
                   | PList xs \<Rightarrow> PList xs)
      in container_exec (container self) prog' user environment w)"

definition TempdirContext_run ::
  "(program \<Rightarrow> pure_path \<Rightarrow> 'e option \<Rightarrow> 'w \<Rightarrow> exn + 'w) \<Rightarrow>
   TempdirContext \<Rightarrow> program \<Rightarrow> string \<Rightarrow> 'e option \<Rightarrow> 'w \<Rightarrow> exn + 'w" where
  "TempdirContext_run exec_and_log self prog user environment w =
     (if user \<noteq> ''build'' then Inl (Exception ''cannot change user in temp directory builds'')
      else
        let prog' = (case prog of
                       PStr s \<Rightarrow> if \<not> startswith s ''/''
                                 then PStr (path_str (path_div (td self) s)) else PStr s
                     | PList xs \<Rightarrow> PList xs)
        in exec_and_log prog' (td self) environment w)"

subsection \<open>Toolchain and artifact installer\<close>

definition ContainerContext_copy_file ::
  "(pure_path \<Rightarrow> 'c \<Rightarrow> string \<Rightarrow> string \<Rightarrow> 'w \<Rightarrow> exn + 'w) \<Rightarrow>
   'c ContainerContext \<Rightarrow> pure_path \<Rightarrow> string option \<Rightarrow> string option \<Rightarrow> 'w \<Rightarrow> exn + 'w" where
  "ContainerContext_copy_file copy_file_to_container self source dest_path dest_name w =
     (let dest_name' = or_else dest_name (path_name source);
          dest_path' = or_else dest_path ''/build''
      in copy_file_to_container source (container self) dest_path' dest_name' w)"


definition artifact_basename ::
  "string \<Rightarrow> download_entry \<Rightarrow> string \<Rightarrow> string \<Rightarrow> string" where
  "artifact_basename package_name entry target_triple optimizations =
     package_name @ ''-'' @ version entry @ ''-'' @ target_triple @ ''-'' @ optimizations
       @ ''.tar''"


definition ContainerContext_install_artifact_archive ::
  "(pure_path \<Rightarrow> 'c \<Rightarrow> string \<Rightarrow> string \<Rightarrow> 'w \<Rightarrow> exn + 'w) \<Rightarrow>
   ('c \<Rightarrow> program \<Rightarrow> string \<Rightarrow> 'e option \<Rightarrow> 'w \<Rightarrow> exn + 'w) \<Rightarrow>
   'c ContainerContext \<Rightarrow> pure_path \<Rightarrow> string \<Rightarrow> string \<Rightarrow> string \<Rightarrow> 'w \<Rightarrow> exn + 'w" where
  "ContainerContext_install_artifact_archive copy_file_to_container container_exec
       self build_dir package_name target_triple optimizations w =
     and_then (DOWNLOADS_getitem package_name) (\<lambda>entry.
       let basename = artifact_basename package_name entry target_triple optimizations;
           p = path_div build_dir basename
       in and_then (ContainerContext_copy_file copy_file_to_container self p None None w)
            (ContainerContext_run container_exec self
               (PList [''/bin/tar'', ''-C'', ''/tools'', ''-xf'', ''/build/'' @ path_name p])
               ''root'' None))"


definition TempdirContext_install_artifact_archive ::
  "(pure_path \<Rightarrow> pure_path \<Rightarrow> 'w \<Rightarrow> exn + 'w) \<Rightarrow>
   TempdirContext \<Rightarrow> pure_path \<Rightarrow> string \<Rightarrow> string \<Rightarrow> string \<Rightarrow> 'w \<Rightarrow> exn + 'w" where
  "TempdirContext_install_artifact_archive extract_tar_to_directory
       self build_dir package_name target_triple optimizations w =
     and_then (DOWNLOADS_getitem package_name) (\<lambda>entry.
       let basename = artifact_basename package_name entry target_triple optimizations;
           p = path_div build_dir basename;
           dest_path = path_div (td self) ''tools''
       in extract_tar_to_directory p dest_path w)"



subsection \<open>The host file system, as the temporary-directory context reads it\<close>

text \<open>
  A directory lists its entries in the order the operating system returns them, which is
  not specified; names within one directory are distinct. File contents are byte strings.
  Symbolic links are not modelled. Paths are resolved from the root of the tree (the
  temporary directory of \<open>build_environment\<close> is absolute).
\<close>

datatype node = File string | Dir "(string \<times> node) list"

fun lookup :: "node \<Rightarrow> node list \<Rightarrow> string list \<Rightarrow> exn + node" where
  "lookup cur anc [] = Inr cur"
| "lookup cur anc (c # cs) =
     (case cur of
        File _ \<Rightarrow> Inl NotADirectoryError
      | Dir es \<Rightarrow>
          if c = ''..'' then (case anc of [] \<Rightarrow> lookup cur [] cs | a # as \<Rightarrow> lookup a as cs)
          else (case map_of es c of
                  None \<Rightarrow> Inl FileNotFoundError
                | Some n \<Rightarrow> lookup n (cur # anc) cs))"

subsection \<open>Tar archives, as \<open>tarfile\<close> reads them\<close>

datatype member_type = REGTYPE | DIRTYPE | SYMTYPE | LNKTYPE | OTHERTYPE

record tar_member =
  ti_name :: string
  ti_type :: member_type
  ti_linkname :: string
  ti_data :: string
  ti_mode :: nat
  ti_uid :: nat
  ti_gid :: nat
  ti_uname :: string
  ti_gname :: string
  ti_mtime :: nat
  ti_pax_headers :: "(string \<times> string) list"

text \<open>
  \<open>TarFile.extractfile\<close>: a regular member gives a file object (here its bytes), a
  link gives the file object of its target (found by \<open>link_target\<close>, a parameter), and a
  member without data (a directory, a device) gives \<open>None\<close>. Calling \<open>.read()\<close> on
  \<open>None\<close> raises \<open>AttributeError\<close>.
\<close>

definition extractfile ::
  "(tar_member list \<Rightarrow> tar_member \<Rightarrow> exn + string option) \<Rightarrow>
   tar_member list \<Rightarrow> tar_member \<Rightarrow> exn + string option" where
  "extractfile link_target tf ti =
     (if ti_type ti = REGTYPE then Inr (Some (ti_data ti))
      else if ti_type ti = LNKTYPE \<or> ti_type ti = SYMTYPE then link_target tf ti
      else Inr None)"

definition read_fileobj :: "string option \<Rightarrow> exn + string" where
  "read_fileobj f = (case f of None \<Rightarrow> Inl AttributeError | Some b \<Rightarrow> Inr b)"

subsection \<open>Artifact retriever: \<open>get_file\<close>\<close>

text \<open>
  \<open>container_get_archive\<close> (of \<open>pythonbuild/docker.py\<close>) is a parameter: it returns the
  archive of a path of the container, or the exception it raised.
\<close>

definition ContainerContext_get_file ::
  "('c \<Rightarrow> string \<Rightarrow> 'w \<Rightarrow> exn + tar_member list) \<Rightarrow>
   (tar_member list \<Rightarrow> tar_member \<Rightarrow> exn + string option) \<Rightarrow>
   'c ContainerContext \<Rightarrow> string \<Rightarrow> 'w \<Rightarrow> exn + string" where
  "ContainerContext_get_file container_get_archive link_target self path w =
     and_then (container_get_archive (container self) (''/build/'' @ path) w)
       (\<lambda>tf. case tf of
               [] \<Rightarrow> Inl (Exception ''file not found'')
             | ti # _ \<Rightarrow> and_then (extractfile link_target tf ti) read_fileobj)"

text \<open>
  In the temporary-directory context \<open>get_file\<close> opens the path for reading and reads it.
  \<open>p.open("rb")\<close> followed by \<open>fh.read()\<close> is a call of \<open>pathlib\<close> and of the operating
  system: the parameter \<open>open_read\<close> returns the bytes read from a path in the world \<open>'w\<close>,
  or the exception raised.
\<close>

definition TempdirContext_get_file ::
  "(pure_path \<Rightarrow> 'w \<Rightarrow> exn + string) \<Rightarrow> TempdirContext \<Rightarrow> string \<Rightarrow> 'w \<Rightarrow> exn + string" where
  "TempdirContext_get_file open_read self path w =
     (let p = path_div (td self) path in open_read p w)"

text \<open>The errors that say that the requested file is not there.\<close>

definition not_found_error :: "exn \<Rightarrow> bool" where
  "not_found_error e = (e = FileNotFoundError \<or> e = Exception ''file not found'')"

subsection \<open>Artifact retriever: \<open>find_output_files\<close>\<close>

text \<open>
  \<open>fnmatch.fnmatch(name, pat)\<close> on POSIX, where \<open>normcase\<close> is the identity: the pattern
  is matched against the whole name; \<open>*\<close> matches any run of characters, \<open>?\<close> any one
  character, \<open>[seq]\<close> one character of \<open>seq\<close>, \<open>[!seq]\<close> one character not in
  \<open>seq\<close>, and every other character itself. A \<open>[\<close> with no closing \<open>]\<close> is literal; a
  \<open>]\<close> right after \<open>[\<close> or \<open>[!\<close> belongs to the set. Inside a set \<open>a-b\<close> is a
  range of character codes. (A range whose ends are in the wrong order matches nothing
  here; CPython before 3.12 raises \<open>re.error\<close> on it.) Names and patterns are strings of
  characters with codes below 256, one character each, which is how Python matches them
  too; a name with a character beyond that range is outside this model.
\<close>

definition bracket_end :: "string \<Rightarrow> (string \<times> string) option" where
  "bracket_end ps =
     (let (neg, r1) = (case ps of [] \<Rightarrow> ([], ps)
                       | c # r \<Rightarrow> if c = CHR ''!'' then ([c], r) else ([], ps));
          (cl, r2) = (case r1 of [] \<Rightarrow> ([], r1)
                      | c # r \<Rightarrow> if c = CHR '']'' then ([c], r) else ([], r1))
      in if CHR '']'' \<in> set r2
         then Some (neg @ cl @ takeWhile (\<lambda>c. c \<noteq> CHR '']'') r2,
                    tl (dropWhile (\<lambda>c. c \<noteq> CHR '']'') r2))
         else None)"

fun in_items :: "string \<Rightarrow> char \<Rightarrow> bool" where
  "in_items (a # m # b # rest) c =
     (if m = CHR ''-'' then (a \<le> c \<and> c \<le> b) \<or> in_items rest c
      else c = a \<or> in_items (m # b # rest) c)"
| "in_items (a # rest) c = (c = a \<or> in_items rest c)"
| "in_items [] c = False"

definition in_class :: "string \<Rightarrow> char \<Rightarrow> bool" where
  "in_class stuff c =
     (case stuff of [] \<Rightarrow> False
      | x # rest \<Rightarrow> if x = CHR ''!'' then \<not> in_items rest c else in_items stuff c)"

function glob_match :: "string \<Rightarrow> string \<Rightarrow> bool" where
  "glob_match [] name = (name = [])"
| "glob_match (p # ps) name =
     (if p = CHR ''*'' then
        (if glob_match ps name then True
         else (case name of [] \<Rightarrow> False | c # cs \<Rightarrow> glob_match (p # ps) cs))
      else if p = CHR ''?'' then
        (case name of [] \<Rightarrow> False | c # cs \<Rightarrow> glob_match ps cs)
      else if p = CHR ''['' then
        (case bracket_end ps of
           None \<Rightarrow> (case name of [] \<Rightarrow> False | c # cs \<Rightarrow> c = p \<and> glob_match ps cs)
         | Some (stuff, rest) \<Rightarrow>
             (case name of [] \<Rightarrow> False | c # cs \<Rightarrow> in_class stuff c \<and> glob_match rest cs))
      else (case name of [] \<Rightarrow> False | c # cs \<Rightarrow> c = p \<and> glob_match ps cs))"
  by pat_completeness auto
termination
proof (relation "measure (\<lambda>(pat, name). length pat + length name)")
  fix p :: char and ps name :: string and x2 :: "string \<times> string" and stuff rest :: string
    and c :: char and cs :: string
  assume "bracket_end ps = Some x2" and "(stuff, rest) = x2" and "name = c # cs"
  then have b: "bracket_end ps = Some (stuff, rest)" by simp
  have A: "length (tl (dropWhile P ys)) \<le> length ys" for P and ys :: string
    using length_dropWhile_le [of P ys] by simp
  from b obtain r2 where "rest = tl (dropWhile (\<lambda>c. c \<noteq> CHR '']'') r2)"
      and "length r2 \<le> length ps"
    by (auto simp: bracket_end_def Let_def split: list.splits if_splits prod.splits)
  then have "length rest \<le> length ps"
    using A [of "\<lambda>c. c \<noteq> CHR '']''" r2] by simp
  then show "((rest, cs), (p # ps, name)) \<in> measure (\<lambda>(pat, name). length pat + length name)"
    using \<open>name = c # cs\<close> by simp
qed auto

definition fnmatch :: "string \<Rightarrow> string \<Rightarrow> bool" where
  "fnmatch name pat = glob_match pat name"

text \<open>
  A pattern has a path separator outside every bracket expression: read as \<open>fnmatch\<close>
  reads it, some \<open>/\<close> of the pattern stands for itself. (A \<open>[\<close> that is never closed
  is an ordinary character and opens no bracket expression.)
\<close>

function literal_separator :: "string \<Rightarrow> bool" where
  "literal_separator [] = False"
| "literal_separator (p # ps) =
     (if p = CHR ''['' then
        (case bracket_end ps of
           None \<Rightarrow> literal_separator ps
         | Some (stuff, rest) \<Rightarrow> literal_separator rest)
      else p = CHR ''/'' \<or> literal_separator ps)"
  by pat_completeness auto
termination
proof (relation "measure length")
  fix p :: char and ps :: string and x2 :: "string \<times> string" and stuff rest :: string
  assume "bracket_end ps = Some x2" and "(stuff, rest) = x2"
  then have b: "bracket_end ps = Some (stuff, rest)" by simp
  have A: "length (tl (dropWhile P ys)) \<le> length ys" for P and ys :: string
    using length_dropWhile_le [of P ys] by simp
  from b obtain r2 where "rest = tl (dropWhile (\<lambda>c. c \<noteq> CHR '']'') r2)"
      and "length r2 \<le> length ps"
    by (auto simp: bracket_end_def Let_def split: list.splits if_splits prod.splits)
  then have "length rest \<le> length ps"
    using A [of "\<lambda>c. c \<noteq> CHR '']''" r2] by simp
  then show "(rest, p # ps) \<in> measure length" by simp
qed auto

text \<open>\<open>os.path.join(a, b)\<close> of \<open>posixpath\<close>.\<close>

definition os_path_join :: "string \<Rightarrow> string \<Rightarrow> string" where
  "os_path_join a b =
     (if startswith b ''/'' then b
      else if a = [] \<or> last a = CHR ''/'' then a @ b
      else a @ ''/'' @ b)"

text \<open>
  \<open>os.walk(top)\<close>, top down, not following links, errors of \<open>scandir\<close> ignored (the default
  \<open>onerror=None\<close>): a top that is not a directory yields nothing. For a directory it
  yields \<open>(top, dirs, nondirs)\<close> and then walks into each name that is in \<open>dirs\<close> after the
  consumer has handled the triple; \<open>visit\<close> is what the consumer did to \<open>dirs\<close> in place
  (\<open>find_output_files\<close> sorts it).
\<close>

definition is_dir :: "node \<Rightarrow> bool" where
  "is_dir n = (case n of Dir _ \<Rightarrow> True | File _ \<Rightarrow> False)"

function os_walk ::
  "(string list \<Rightarrow> string list) \<Rightarrow> string \<Rightarrow> node \<Rightarrow> (string \<times> string list \<times> string list) list"
where
  "os_walk visit top_dir (File b) = []"
| "os_walk visit top_dir (Dir es) =
     (let dirs = visit (map fst (filter (\<lambda>e. is_dir (snd e)) es));
          nondirs = map fst (filter (\<lambda>e. \<not> is_dir (snd e)) es)
      in (top_dir, dirs, nondirs) #
         concat (map (\<lambda>d. case map_of es d of
                             None \<Rightarrow> []
                           | Some n \<Rightarrow> os_walk visit (os_path_join top_dir d) n) dirs))"
  by pat_completeness auto
termination
proof (relation "measure (\<lambda>(visit, t, n). size n)")
  fix visit :: "string list \<Rightarrow> string list" and top_dir :: string
    and es :: "(string \<times> node) list" and d :: string and n :: node
  assume "map_of es d = Some n"
  then have "(d, n) \<in> set es" by (rule map_of_SomeD)
  then have "size n < size (Dir es)"
    by (induction es) auto
  then show "((visit, os_path_join top_dir d, n), (visit, top_dir, Dir es))
      \<in> measure (\<lambda>(visit, t, n). size n)" by simp
qed auto

definition TempdirContext_find_output_files ::
  "node \<Rightarrow> TempdirContext \<Rightarrow> string \<Rightarrow> string \<Rightarrow> string list" where
  "TempdirContext_find_output_files fs self base_path pattern =
     (let base = path_str (path_div (path_div (td self) ''out'') base_path)
      in concat (map (\<lambda>(root, dirs, files).
                   map (\<lambda>f. drop (length base + 1) (os_path_join root f))
                     (filter (\<lambda>f. fnmatch f pattern) (sort files)))
           (case lookup fs [] (comps (Path base)) of
              Inl _ \<Rightarrow> []
            | Inr n \<Rightarrow> os_walk sort base n)))"

text \<open>
  \<open>bytes.splitlines()\<close> (lines end at \<open>\n\<close>, \<open>\r\<close> or \<open>\r\n\<close>), the blank-line test
  \<open>not line.strip()\<close>, and \<open>.decode("ascii")\<close>.
\<close>

fun lines_acc :: "string \<Rightarrow> string \<Rightarrow> string list" where
  "lines_acc acc [] = (if acc = [] then [] else [rev acc])"
| "lines_acc acc (c # cs) =
     (if c = CHR 0x0A then rev acc # lines_acc [] cs
      else if c = CHR 0x0D then
        (case cs of
           [] \<Rightarrow> [rev acc]
         | d # ds \<Rightarrow> if d = CHR 0x0A then rev acc # lines_acc [] ds
                    else rev acc # lines_acc [] cs)
      else lines_acc (c # acc) cs)"

definition splitlines :: "string \<Rightarrow> string list" where
  "splitlines s = lines_acc [] s"

definition is_space :: "char \<Rightarrow> bool" where
  "is_space c = (c = CHR '' '' \<or> c = CHR 0x09 \<or> c = CHR 0x0A \<or> c = CHR 0x0B
                 \<or> c = CHR 0x0C \<or> c = CHR 0x0D)"

definition decode_ascii :: "string \<Rightarrow> exn + string" where
  "decode_ascii s = (if list_all (\<lambda>c. (of_char c :: nat) < 128) s then Inr s
                     else Inl UnicodeDecodeError)"

text \<open>Consuming a generator to the end: the first exception ends it.\<close>

fun collect :: "(exn + 'a) list \<Rightarrow> exn + 'a list" where
  "collect [] = Inr []"
| "collect (r # rs) =
     (case r of Inl e \<Rightarrow> Inl e
      | Inr x \<Rightarrow> (case collect rs of Inl e \<Rightarrow> Inl e | Inr xs \<Rightarrow> Inr (x # xs)))"

text \<open>
  \<open>container.exec_run\<close> (of the Docker client) is a parameter: it returns the exit code and
  the output of the command, here of \<open>/usr/bin/find\<close> inside the container.
\<close>

definition ContainerContext_find_output_files ::
  "('c \<Rightarrow> string list \<Rightarrow> string \<Rightarrow> 'w \<Rightarrow> exn + (int \<times> string)) \<Rightarrow>
   'c ContainerContext \<Rightarrow> string \<Rightarrow> string \<Rightarrow> 'w \<Rightarrow> exn + string list" where
  "ContainerContext_find_output_files exec_run self base_path pattern w =
     (let command = [''/usr/bin/find'', ''/build/out/'' @ base_path, ''-name'', pattern]
      in and_then (exec_run (container self) command ''build'' w) (\<lambda>res.
           collect (map (\<lambda>line. decode_ascii
                                  (drop (length (''/build/out/'' @ base_path @ ''/'')) line))
                      (filter (\<lambda>line. \<not> list_all is_space line) (splitlines (snd res))))))"

text \<open>
  Two directory trees that hold the same entries, whatever the order in which their
  directories list them.
\<close>

function same_entries :: "node \<Rightarrow> node \<Rightarrow> bool" where
  "same_entries (File a) (File b) = (a = b)"
| "same_entries (File a) (Dir fs) = False"
| "same_entries (Dir es) (File b) = False"
| "same_entries (Dir es) (Dir fs) =
     (distinct (map fst es) \<and> distinct (map fst fs) \<and> set (map fst es) = set (map fst fs)
      \<and> (\<forall>e \<in> set es. \<forall>f \<in> set fs. fst e = fst f \<longrightarrow> same_entries (snd e) (snd f)))"
  by pat_completeness auto
termination
proof (relation "measure (\<lambda>(a, b). size a)")
  fix es fs :: "(string \<times> node) list" and e f :: "string \<times> node"
  assume "e \<in> set es"
  then have "size (snd e) < size (Dir es)"
    by (induction es) auto
  then show "((snd e, snd f), (Dir es, Dir fs)) \<in> measure (\<lambda>(a, b). size a)" by simp
qed auto

text \<open>Entry names are not empty and hold no path separator.\<close>

function names_ok :: "node \<Rightarrow> bool" where
  "names_ok (File a) = True"
| "names_ok (Dir es) =
     (\<forall>e \<in> set es. fst e \<noteq> [] \<and> CHR ''/'' \<notin> set (fst e) \<and> names_ok (snd e))"
  by pat_completeness auto
termination
proof (relation "measure size")
  fix es :: "(string \<times> node) list" and e :: "string \<times> node"
  assume "e \<in> set es"
  then have "size (snd e) < size (Dir es)"
    by (induction es) auto
  then show "(snd e, Dir es) \<in> measure size" by simp
qed auto

text \<open>
  The output directory \<open>out/base_path\<close> of a temporary-directory context is the same on
  two hosts: it is missing on both, or it holds the same entries on both.
\<close>

definition same_output_directory ::
  "node \<Rightarrow> node \<Rightarrow> TempdirContext \<Rightarrow> string \<Rightarrow> bool" where
  "same_output_directory fs fs' self base_path =
     (let cs = comps (Path (path_str (path_div (path_div (td self) ''out'') base_path)))
      in case lookup fs [] cs of
           Inl _ \<Rightarrow> (case lookup fs' [] cs of Inl _ \<Rightarrow> True | Inr _ \<Rightarrow> False)
         | Inr n \<Rightarrow> (case lookup fs' [] cs of
                       Inl _ \<Rightarrow> False
                     | Inr n' \<Rightarrow> n = n' \<or> same_entries n n'))"

subsection \<open>Artifact retriever: \<open>get_output_archive\<close>\<close>

text \<open>
  Modelled from the spec: \<open>normalize_tar_archive\<close> of \<open>pythonbuild/utils.py\<close>, which is
  not among the sources. The spec has it sort the entries by name, pin the ownership
  (uid, gid and their names) to fixed sentinel values, pin the modification time to a
  fixed epoch value, and strip the extended metadata a backend added. The spec leaves
  the sentinel values open, so they are the parameter \<open>pins\<close>.
\<close>

record tar_pins =
  pin_uid :: nat
  pin_gid :: nat
  pin_uname :: string
  pin_gname :: string
  pin_mtime :: nat

definition normalize_member :: "tar_pins \<Rightarrow> tar_member \<Rightarrow> tar_member" where
  "normalize_member pins m =
     m\<lparr> ti_uid := pin_uid pins, ti_gid := pin_gid pins, ti_uname := pin_uname pins,
        ti_gname := pin_gname pins, ti_mtime := pin_mtime pins, ti_pax_headers := [] \<rparr>"

definition normalize_tar_archive :: "tar_pins \<Rightarrow> tar_member list \<Rightarrow> tar_member list" where
  "normalize_tar_archive pins ms = sort_key ti_name (map (normalize_member pins) ms)"

text \<open>
  What \<open>get_output_archive\<close> returns: an open \<open>TarFile\<close> over the normalized archive when
  \<open>as_tar\<close> is set, its bytes otherwise. \<open>serialize\<close> is the writer of \<open>tarfile\<close>, which
  turns the members into bytes. \<open>container_get_archive\<close> and \<open>create_tar_from_directory\<close>
  are parameters and return the archive they captured.
\<close>

datatype archive_result = TarFile "tar_member list" | Bytes string

definition ContainerContext_get_output_archive ::
  "('c \<Rightarrow> string \<Rightarrow> 'w \<Rightarrow> exn + tar_member list) \<Rightarrow> tar_pins \<Rightarrow>
   (tar_member list \<Rightarrow> string) \<Rightarrow>
   'c ContainerContext \<Rightarrow> string option \<Rightarrow> bool \<Rightarrow> 'w \<Rightarrow> exn + archive_result" where
  "ContainerContext_get_output_archive container_get_archive pins serialize
       self path as_tar w =
     (let p = ''/build/out'' @
                (case path of None \<Rightarrow> [] | Some s \<Rightarrow> if s = [] then [] else ''/'' @ s)
      in and_then (container_get_archive (container self) p w) (\<lambda>data.
           let data' = normalize_tar_archive pins data
           in Inr (if as_tar then TarFile data' else Bytes (serialize data'))))"

definition TempdirContext_get_output_archive ::
  "(pure_path \<Rightarrow> string \<Rightarrow> 'w \<Rightarrow> exn + tar_member list) \<Rightarrow> tar_pins \<Rightarrow>
   (tar_member list \<Rightarrow> string) \<Rightarrow>
   TempdirContext \<Rightarrow> string \<Rightarrow> bool \<Rightarrow> 'w \<Rightarrow> exn + archive_result" where
  "TempdirContext_get_output_archive create_tar_from_directory pins serialize
       self path as_tar w =
     (let p = path_div (path_div (td self) ''out'') path
      in and_then (parts_last p) (\<lambda>path_prefix.
         and_then (create_tar_from_directory p path_prefix w) (\<lambda>data.
           let data' = normalize_tar_archive pins data
           in Inr (if as_tar then TarFile data' else Bytes (serialize data')))))"

text \<open>
  The file tree an archive holds: for every entry its name, its kind, its link target,
  its contents and its permission bits, without the metadata a backend adds.
\<close>

definition tree_entry ::
  "tar_member \<Rightarrow> string \<times> member_type \<times> string \<times> string \<times> nat" where
  "tree_entry m = (ti_name m, ti_type m, ti_linkname m, ti_data m, ti_mode m)"

definition file_tree ::
  "tar_member list \<Rightarrow> (string \<times> member_type \<times> string \<times> string \<times> nat) set" where
  "file_tree ms = set (map tree_entry ms)"

section \<open>The backend lifecycle manager\<close>

text \<open>
  \<open>build_environment\<close> is a generator under \<open>contextlib.contextmanager\<close>: the body of the
  caller's \<open>with\<close> statement runs at the \<open>yield\<close>, and an exception of the body is raised
  there. The world \<open>'w\<close> is passed along; a call returns its result or its exception
  together with the world it left. The calls of the Docker client and of \<open>tempfile\<close> are
  parameters.
\<close>

datatype 'c build_context = ContainerCtx "'c ContainerContext" | TempdirCtx TempdirContext

text \<open>\<open>try: body finally: fin\<close>: an exception of \<open>fin\<close> replaces the outcome of the body.\<close>

definition try_finally ::
  "('w \<Rightarrow> (exn + 'a) \<times> 'w) \<Rightarrow> ('w \<Rightarrow> (exn + unit) \<times> 'w) \<Rightarrow> 'w \<Rightarrow> (exn + 'a) \<times> 'w" where
  "try_finally body fin w =
     (case body w of (r, w') \<Rightarrow>
        (case fin w' of (Inl e, w'') \<Rightarrow> (Inl e, w'') | (Inr _, w'') \<Rightarrow> (r, w'')))"

definition build_environment ::
  "('cl \<Rightarrow> string \<Rightarrow> string list \<Rightarrow> bool \<Rightarrow> 'w \<Rightarrow> (exn + 'c) \<times> 'w) \<Rightarrow>
   ('c \<Rightarrow> int \<Rightarrow> 'w \<Rightarrow> (exn + unit) \<times> 'w) \<Rightarrow>
   ('c \<Rightarrow> 'w \<Rightarrow> (exn + unit) \<times> 'w) \<Rightarrow>
   ('w \<Rightarrow> (exn + string) \<times> 'w) \<Rightarrow>
   (string \<Rightarrow> 'w \<Rightarrow> (exn + unit) \<times> 'w) \<Rightarrow>
   'cl option \<Rightarrow> string \<Rightarrow> ('c build_context \<Rightarrow> 'w \<Rightarrow> (exn + 'a) \<times> 'w) \<Rightarrow>
   'w \<Rightarrow> (exn + 'a) \<times> 'w" where
  "build_environment containers_run container_stop container_remove
       TemporaryDirectory td_cleanup client img body w =
     (case (case client of
              Some cl \<Rightarrow>
                (case containers_run cl img [''/bin/sleep'', ''86400''] True w of
                   (Inl e, w1) \<Rightarrow> (Inl e, w1)
                 | (Inr c, w1) \<Rightarrow>
                     (Inr (Some c, None, ContainerCtx (ContainerContext_init c)), w1))
            | None \<Rightarrow>
                (case TemporaryDirectory w of
                   (Inl e, w1) \<Rightarrow> (Inl e, w1)
                 | (Inr name, w1) \<Rightarrow>
                     (Inr (None, Some name, TempdirCtx (TempdirContext_init name)), w1)))
      of
        (Inl e, w1) \<Rightarrow> (Inl e, w1)
      | (Inr (cont, tdir, ctx), w1) \<Rightarrow>
          try_finally (body ctx)
            (\<lambda>w2. case cont of
                     Some c \<Rightarrow>
                       (case container_stop c 0 w2 of
                          (Inl e, w3) \<Rightarrow> (Inl e, w3)
                        | (Inr _, w3) \<Rightarrow> container_remove c w3)
                   | None \<Rightarrow>
                       (case tdir of
                          Some name \<Rightarrow> td_cleanup name w2
                        | None \<Rightarrow> (Inl AttributeError, w2)))
            w1)"

section \<open>A small output tree\<close>

text \<open>
  A host whose temporary directory \<open>/tmp/tmpk3\<close> holds the output tree \<open>lib/a.so\<close>,
  \<open>lib/sub/b.so\<close> and \<open>lib/c.txt\<close>; the directories list their entries in an order that
  is not sorted.
\<close>

definition example_out :: node where
  "example_out =
     Dir [(''lib'', Dir [(''sub'', Dir [(''b.so'', File ''bbb'')]),
                         (''c.txt'', File ''ccc''),
                         (''a.so'', File ''aaa'')])]"

definition example_fs :: node where
  "example_fs =
     Dir [(''tmp'', Dir [(''tmpk3'', Dir [(''tools'', Dir []), (''out'', example_out)])])]"

text \<open>The same host later: the output tree is listed in another order, a tool was added.\<close>

definition example_fs_later :: node where
  "example_fs_later =
     Dir [(''tmp'', Dir [(''tmpk3'',
       Dir [(''out'', Dir [(''lib'', Dir [(''a.so'', File ''aaa''),
                                         (''c.txt'', File ''ccc''),
                                         (''sub'', Dir [(''b.so'', File ''bbb'')])])]),
            (''tools'', Dir [(''clang'', File ''elf'')])])])]"

definition example_td :: TempdirContext where
  "example_td = TempdirContext_init ''/tmp/tmpk3''"

text \<open>
  Two captures of the tree \<open>lib/a.so\<close>, \<open>lib/c.txt\<close>: one as a container returns it
  (owner \<open>build\<close>, its own time stamps, an extended header, \<open>c.txt\<close> first) and one as
  the host packs it.
\<close>

definition example_file ::
  "string \<Rightarrow> string \<Rightarrow> nat \<Rightarrow> string \<Rightarrow> nat \<Rightarrow> (string \<times> string) list \<Rightarrow> tar_member" where
  "example_file n d u un t px =
     \<lparr> ti_name = n, ti_type = REGTYPE, ti_linkname = [], ti_data = d, ti_mode = 420,
       ti_uid = u, ti_gid = u, ti_uname = un, ti_gname = un, ti_mtime = t,
       ti_pax_headers = px \<rparr>"

definition example_container_archive :: "tar_member list" where
  "example_container_archive =
     [example_file ''lib/c.txt'' ''ccc'' 1000 ''build'' 1670000000 [(''mtime'', ''1670000000.5'')],
      example_file ''lib/a.so'' ''aaa'' 1000 ''build'' 1670000001 []]"

definition example_tempdir_archive :: "tar_member list" where
  "example_tempdir_archive =
     [example_file ''lib/a.so'' ''aaa'' 501 ''staff'' 1670001111 [],
      example_file ''lib/c.txt'' ''ccc'' 501 ''staff'' 1670001112 []]"

definition example_pins :: tar_pins where
  "example_pins = \<lparr> pin_uid = 0, pin_gid = 0, pin_uname = ''root'', pin_gname = ''root'',
                     pin_mtime = 0 \<rparr>"

text \<open>A stand-in for the writer of \<open>tarfile\<close>: every field of every member, in order.\<close>

definition example_serialize :: "tar_member list \<Rightarrow> string" where
  "example_serialize ms =
     concat (map (\<lambda>m. ti_name m @ '':'' @ ti_uname m @ '':'' @ ti_gname m @ '':''
                       @ replicate (ti_uid m) CHR ''u'' @ replicate (ti_gid m) CHR ''g''
                       @ replicate (ti_mtime m) CHR ''t'' @ '':'' @ ti_data m @ '';'') ms)"

text \<open>
  A small world for the lifecycle manager: the containers of a Docker daemon (each running
  or stopped), the paths of the host, and the teardown calls made so far. The daemon
  refuses to remove a container that is still running.
\<close>

datatype teardown_call = Stop nat int | Remove nat | Cleanup string

record toy_world =
  tw_containers :: "(nat \<times> bool) list"
  tw_paths :: "string list"
  tw_calls :: "teardown_call list"

definition toy_containers_run ::
  "unit \<Rightarrow> string \<Rightarrow> string list \<Rightarrow> bool \<Rightarrow> toy_world \<Rightarrow> (exn + nat) \<times> toy_world" where
  "toy_containers_run cl img command detach w =
     (let c = length (tw_containers w)
      in (Inr c, w\<lparr> tw_containers := tw_containers w @ [(c, True)] \<rparr>))"

definition toy_stop :: "nat \<Rightarrow> int \<Rightarrow> toy_world \<Rightarrow> (exn + unit) \<times> toy_world" where
  "toy_stop c timeout w =
     (Inr (), w\<lparr> tw_containers := map (\<lambda>(i, r). if i = c then (i, False) else (i, r))
                                       (tw_containers w),
                 tw_calls := tw_calls w @ [Stop c timeout] \<rparr>)"

definition toy_remove :: "nat \<Rightarrow> toy_world \<Rightarrow> (exn + unit) \<times> toy_world" where
  "toy_remove c w =
     (if (c, True) \<in> set (tw_containers w)
      then (Inl (External ''cannot remove a running container''), w)
      else (Inr (), w\<lparr> tw_containers := filter (\<lambda>(i, r). i \<noteq> c) (tw_containers w),
                        tw_calls := tw_calls w @ [Remove c] \<rparr>))"

definition toy_TemporaryDirectory :: "toy_world \<Rightarrow> (exn + string) \<times> toy_world" where
  "toy_TemporaryDirectory w = (Inr ''/tmp/tmpk3'', w\<lparr> tw_paths := tw_paths w @ [''/tmp/tmpk3''] \<rparr>)"

definition toy_cleanup :: "string \<Rightarrow> toy_world \<Rightarrow> (exn + unit) \<times> toy_world" where
  "toy_cleanup name w =
     (Inr (), w\<lparr> tw_paths := filter (\<lambda>p. p \<noteq> name \<and> \<not> startswith p (name @ ''/''))
                                  (tw_paths w),
                 tw_calls := tw_calls w @ [Cleanup name] \<rparr>)"

text \<open>A build that writes a file into the temporary directory, if it has one, and fails.\<close>

definition toy_failing_body ::
  "nat build_context \<Rightarrow> toy_world \<Rightarrow> (exn + unit) \<times> toy_world" where
  "toy_failing_body ctx w =
     (case ctx of
        ContainerCtx c \<Rightarrow> (Inl (Exception ''build failed''), w)
      | TempdirCtx t \<Rightarrow>
          (Inl (Exception ''build failed''),
           w\<lparr> tw_paths := tw_paths w @ [path_str (path_div (td t) ''out/a.so'')] \<rparr>))"

definition toy_start :: toy_world where
  "toy_start = \<lparr> tw_containers = [], tw_paths = [''/home/build/cpython''], tw_calls = [] \<rparr>"

text \<open>
  A host for the examples of \<open>get_file\<close>: regular files, directories and special files
  (a device), all of them readable, no links, with the limits of Linux on a name (255
  bytes) and on a path (4095 bytes). \<open>open\<close> refuses a path with a NUL byte before it asks
  the system; the system walks the path from the root, one component after the other;
  reading a special file gives the bytes the device delivers.
\<close>

datatype hnode = HFile string | HDir "(string \<times> hnode) list" | HSpecial string

fun hlookup :: "hnode \<Rightarrow> hnode list \<Rightarrow> string list \<Rightarrow> exn + hnode" where
  "hlookup cur anc [] = Inr cur"
| "hlookup cur anc (c # cs) =
     (case cur of
        HDir es \<Rightarrow>
          if c = ''..'' then (case anc of [] \<Rightarrow> hlookup cur [] cs | a # as \<Rightarrow> hlookup a as cs)
          else if length c > 255 then Inl (OSError ''ENAMETOOLONG'')
          else (case map_of es c of
                  None \<Rightarrow> Inl FileNotFoundError
                | Some n \<Rightarrow> hlookup n (cur # anc) cs)
      | HFile _ \<Rightarrow> Inl NotADirectoryError
      | HSpecial _ \<Rightarrow> Inl NotADirectoryError)"

definition host_open_read :: "pure_path \<Rightarrow> hnode \<Rightarrow> exn + string" where
  "host_open_read p h =
     (if CHR 0x00 \<in> set (path_str p) then Inl ValueError
      else if length (path_str p) > 4095 then Inl (OSError ''ENAMETOOLONG'')
      else and_then (hlookup h [] (comps p))
             (\<lambda>n. case n of
                     HFile b \<Rightarrow> Inr b
                   | HSpecial b \<Rightarrow> Inr b
                   | HDir _ \<Rightarrow> Inl IsADirectoryError))"

definition example_host :: hnode where
  "example_host =
     HDir [(''dev'', HDir [(''null'', HSpecial [])]),
           (''tmp'', HDir [(''tmpk3'',
              HDir [(''out'', HDir [(''lib'', HDir [(''a.so'', HFile ''aaa'')])])])])]"

section \<open>Properties\<close>

subsection \<open>Paths and the metadata table\<close>

lemma DOWNLOADS_openssl: "map_of DOWNLOADS ''openssl'' = Some \<lparr>version = ''1.1.1s''\<rparr>"
  by (simp add: DOWNLOADS_def)

lemma DOWNLOADS_zlib: "map_of DOWNLOADS ''zlib'' = Some \<lparr>version = ''1.2.13''\<rparr>"
  by (simp add: DOWNLOADS_def)

lemma split_on_plain: "s \<notin> set xs \<Longrightarrow> split_on s xs = [xs]"
  by (induction xs) auto

lemma Path_plain:
  assumes "CHR ''/'' \<notin> set s" and "s \<noteq> []" and "s \<noteq> ''.''"
  shows "Path s = \<lparr>is_abs = False, comps = [s]\<rparr>"
proof -
  have "\<not> startswith s ''/''"
    using assms(1,2) by (cases s) (auto simp: startswith_def)
  then show ?thesis
    using assms by (simp add: Path_def split_on_plain)
qed

subsection \<open>Archive file names\<close>

text \<open>
  Claim C6. \<open>install_artifact_archive\<close> resolves a package, the version the metadata table
  gives for it, a target triple and an optimization profile to the file name
  \<open>package-version-triple-optimization.tar\<close> inside the build directory: the temporary
  directory context extracts that file into its tool root, the container context copies
  it to \<open>/build\<close> and unpacks it there as root. For \<open>openssl\<close>,
  \<open>x86_64-unknown-linux-gnu\<close> and \<open>noopt\<close> the name is
  \<open>openssl-1.1.1s-x86_64-unknown-linux-gnu-noopt.tar\<close>.
\<close>

theorem install_artifact_archive_filename:
  "(map_of DOWNLOADS package_name = Some entry \<longrightarrow>
      TempdirContext_install_artifact_archive extract_tar_to_directory tself build_dir
          package_name target_triple optimizations w
        = extract_tar_to_directory
            (path_div build_dir (package_name @ ''-'' @ version entry @ ''-'' @ target_triple
                                   @ ''-'' @ optimizations @ ''.tar''))
            (path_div (td tself) ''tools'') w
    \<and> ContainerContext_install_artifact_archive copy_file_to_container container_exec cself
          build_dir package_name target_triple optimizations w
        = (let p = path_div build_dir (package_name @ ''-'' @ version entry @ ''-''
                                         @ target_triple @ ''-'' @ optimizations @ ''.tar'')
           in and_then (copy_file_to_container p (container cself) ''/build'' (path_name p) w)
                (container_exec (container cself)
                   (PList [''/bin/tar'', ''-C'', ''/tools'', ''-xf'', ''/build/'' @ path_name p])
                   ''root'' None)))
   \<and> TempdirContext_install_artifact_archive extract_tar_to_directory tself build_dir
          ''openssl'' ''x86_64-unknown-linux-gnu'' ''noopt'' w
        = extract_tar_to_directory
            \<lparr>is_abs = is_abs build_dir,
             comps = comps build_dir @ [''openssl-1.1.1s-x86_64-unknown-linux-gnu-noopt.tar'']\<rparr>
            (path_div (td tself) ''tools'') w
   \<and> ContainerContext_install_artifact_archive copy_file_to_container container_exec cself
          build_dir ''openssl'' ''x86_64-unknown-linux-gnu'' ''noopt'' w
        = and_then
            (copy_file_to_container
               \<lparr>is_abs = is_abs build_dir,
                comps = comps build_dir @ [''openssl-1.1.1s-x86_64-unknown-linux-gnu-noopt.tar'']\<rparr>
               (container cself) ''/build'' ''openssl-1.1.1s-x86_64-unknown-linux-gnu-noopt.tar'' w)
            (container_exec (container cself)
               (PList [''/bin/tar'', ''-C'', ''/tools'', ''-xf'',
                       ''/build/openssl-1.1.1s-x86_64-unknown-linux-gnu-noopt.tar''])
               ''root'' None)"
proof -
  have name: "Path ''openssl-1.1.1s-x86_64-unknown-linux-gnu-noopt.tar''
      = \<lparr>is_abs = False, comps = [''openssl-1.1.1s-x86_64-unknown-linux-gnu-noopt.tar'']\<rparr>"
    by (rule Path_plain) simp_all
  have g1: "map_of DOWNLOADS package_name = Some entry \<Longrightarrow>
      TempdirContext_install_artifact_archive extract_tar_to_directory tself build_dir
          package_name target_triple optimizations w
        = extract_tar_to_directory
            (path_div build_dir (package_name @ ''-'' @ version entry @ ''-'' @ target_triple
                                   @ ''-'' @ optimizations @ ''.tar''))
            (path_div (td tself) ''tools'') w"
    by (simp add: TempdirContext_install_artifact_archive_def DOWNLOADS_getitem_def
        and_then_def artifact_basename_def)
  have g2: "map_of DOWNLOADS package_name = Some entry \<Longrightarrow>
     ContainerContext_install_artifact_archive copy_file_to_container container_exec cself
          build_dir package_name target_triple optimizations w
        = (let p = path_div build_dir (package_name @ ''-'' @ version entry @ ''-''
                                         @ target_triple @ ''-'' @ optimizations @ ''.tar'')
           in and_then (copy_file_to_container p (container cself) ''/build'' (path_name p) w)
                (container_exec (container cself)
                   (PList [''/bin/tar'', ''-C'', ''/tools'', ''-xf'', ''/build/'' @ path_name p])
                   ''root'' None))"
    by (simp add: ContainerContext_install_artifact_archive_def DOWNLOADS_getitem_def
        and_then_def artifact_basename_def ContainerContext_copy_file_def or_else_def
        ContainerContext_run_def Let_def split: sum.splits)
  have e1: "TempdirContext_install_artifact_archive extract_tar_to_directory tself build_dir
          ''openssl'' ''x86_64-unknown-linux-gnu'' ''noopt'' w
        = extract_tar_to_directory
            \<lparr>is_abs = is_abs build_dir,
             comps = comps build_dir @ [''openssl-1.1.1s-x86_64-unknown-linux-gnu-noopt.tar'']\<rparr>
            (path_div (td tself) ''tools'') w"
    using name
    by (simp add: TempdirContext_install_artifact_archive_def DOWNLOADS_getitem_def
        DOWNLOADS_openssl and_then_def artifact_basename_def path_div_def)
  have e2: "ContainerContext_install_artifact_archive copy_file_to_container container_exec cself
          build_dir ''openssl'' ''x86_64-unknown-linux-gnu'' ''noopt'' w
        = and_then
            (copy_file_to_container
               \<lparr>is_abs = is_abs build_dir,
                comps = comps build_dir @ [''openssl-1.1.1s-x86_64-unknown-linux-gnu-noopt.tar'']\<rparr>
               (container cself) ''/build'' ''openssl-1.1.1s-x86_64-unknown-linux-gnu-noopt.tar'' w)
            (container_exec (container cself)
               (PList [''/bin/tar'', ''-C'', ''/tools'', ''-xf'',
                       ''/build/openssl-1.1.1s-x86_64-unknown-linux-gnu-noopt.tar''])
               ''root'' None)"
    using name
    by (simp add: ContainerContext_install_artifact_archive_def DOWNLOADS_getitem_def
        DOWNLOADS_openssl and_then_def artifact_basename_def path_div_def
        ContainerContext_copy_file_def or_else_def ContainerContext_run_def path_name_def
        split: sum.splits)
  show ?thesis using g1 g2 e1 e2 by blast
qed

theorem install_artifact_archive_filename_witness:
  "map_of DOWNLOADS ''zlib'' = Some \<lparr>version = ''1.2.13''\<rparr>
   \<and> TempdirContext_install_artifact_archive
        (\<lambda>p dest (w :: string list). Inr (w @ [path_str p, path_str dest]) :: exn + string list)
        (TempdirContext_init ''/tmp/tmpk3'') (Path ''/src/build'')
        ''zlib'' ''aarch64-apple-darwin'' ''lto'' []
      = Inr [''/src/build/zlib-1.2.13-aarch64-apple-darwin-lto.tar'', ''/tmp/tmpk3/tools'']"
proof -
  have h: "map_of DOWNLOADS ''zlib'' = Some \<lparr>version = ''1.2.13''\<rparr>"
    by (rule DOWNLOADS_zlib)
  have "TempdirContext_install_artifact_archive
        (\<lambda>p dest (w :: string list). Inr (w @ [path_str p, path_str dest]) :: exn + string list)
        (TempdirContext_init ''/tmp/tmpk3'') (Path ''/src/build'')
        ''zlib'' ''aarch64-apple-darwin'' ''lto'' []
      = Inr [path_str (path_div (Path ''/src/build'')
                         (''zlib'' @ ''-'' @ version \<lparr>version = ''1.2.13''\<rparr> @ ''-''
                            @ ''aarch64-apple-darwin'' @ ''-'' @ ''lto'' @ ''.tar'')),
             path_str (path_div (td (TempdirContext_init ''/tmp/tmpk3'')) ''tools'')]"
    using install_artifact_archive_filename
      [where package_name = "''zlib''" and entry = "\<lparr>version = ''1.2.13''\<rparr>"
         and extract_tar_to_directory =
           "\<lambda>p dest (w :: string list). Inr (w @ [path_str p, path_str dest]) :: exn + string list"
         and tself = "TempdirContext_init ''/tmp/tmpk3''" and build_dir = "Path ''/src/build''"
         and target_triple = "''aarch64-apple-darwin''" and optimizations = "''lto''"
         and w = "[]", THEN conjunct1, THEN mp, OF h, THEN conjunct1]
    by simp
  moreover have "path_str (path_div (Path ''/src/build'')
                   ''zlib-1.2.13-aarch64-apple-darwin-lto.tar'')
                 = ''/src/build/zlib-1.2.13-aarch64-apple-darwin-lto.tar''"
    by (simp add: path_str_def path_div_def Path_def startswith_def)
  moreover have "path_str (path_div (td (TempdirContext_init ''/tmp/tmpk3'')) ''tools'')
                 = ''/tmp/tmpk3/tools''"
    by (simp add: path_str_def path_div_def Path_def startswith_def TempdirContext_init_def)
  ultimately show ?thesis using h by simp
qed

subsection \<open>Sequencing\<close>


lemma and_then_Inl: "and_then (Inl e) f = Inl e"
  by (simp add: and_then_def)




subsection \<open>Toolchain installation\<close>


subsection \<open>Running commands\<close>

text \<open>
  Claim C3. In the temporary-directory context \<open>run\<close> with a user other than \<open>build\<close>
  raises before anything is executed: the outcome is the exception whatever
  \<open>exec_and_log\<close> would do, so the command is not run under the default user instead.
  The container context hands any user on to \<open>container_exec\<close>.
\<close>

theorem tempdir_run_rejects_other_users:
  "(user \<noteq> ''build'' \<longrightarrow>
      TempdirContext_run exec_and_log tself prog user environment w
        = Inl (Exception ''cannot change user in temp directory builds''))
   \<and> ContainerContext_run container_exec cself prog user environment w
        = container_exec (container cself)
            (case prog of
               PStr s \<Rightarrow> if startswith s ''/'' then PStr s else PStr (''/build/'' @ s)
             | PList xs \<Rightarrow> PList xs)
            user environment w"
  by (simp add: TempdirContext_run_def ContainerContext_run_def split: program.splits)

theorem tempdir_run_rejects_other_users_witness:
  "''root'' \<noteq> ''build''
   \<and> TempdirContext_run (\<lambda>prog cwd env (w :: (program \<times> string) list).
            Inr (w @ [(prog, ''host'')]) :: exn + (program \<times> string) list)
        (TempdirContext_init ''/tmp/tmpk3'') (PList [''/bin/tar'', ''-xf'', ''a.tar''])
        ''root'' (None :: unit option) []
      = Inl (Exception ''cannot change user in temp directory builds'')
   \<and> ContainerContext_run
        (\<lambda>c prog user env (w :: (program \<times> string) list).
            Inr (w @ [(prog, user)]) :: exn + (program \<times> string) list)
        (ContainerContext_init (7 :: nat)) (PList [''/bin/tar'', ''-xf'', ''a.tar''])
        ''root'' (None :: unit option) []
      = Inr [(PList [''/bin/tar'', ''-xf'', ''a.tar''], ''root'')]"
proof -
  have h: "''root'' \<noteq> ''build''" by simp
  note T = tempdir_run_rejects_other_users
      [where user = "''root''"
         and exec_and_log = "\<lambda>prog cwd env (w :: (program \<times> string) list).
            Inr (w @ [(prog, ''host'')]) :: exn + (program \<times> string) list"
         and tself = "TempdirContext_init ''/tmp/tmpk3''"
         and prog = "PList [''/bin/tar'', ''-xf'', ''a.tar'']"
         and environment = "None :: unit option" and w = "[]"
         and container_exec = "\<lambda>c prog user env (w :: (program \<times> string) list).
            Inr (w @ [(prog, user)]) :: exn + (program \<times> string) list"
         and cself = "ContainerContext_init (7 :: nat)"]
  from T [THEN conjunct1, THEN mp, OF h] T [THEN conjunct2] h
  show ?thesis by simp
qed

text \<open>
  Claim C9 says that a relative command path is resolved against the workspace root for
  every form the command may take. A command given as an argument list is handed on as
  it is in both contexts: \<open>build.sh\<close> stays \<open>build.sh\<close>.
\<close>

theorem run_list_program_not_resolved:
  "ContainerContext_run
       (\<lambda>c prog user env (w :: program list). Inr (w @ [prog]) :: exn + program list)
       (ContainerContext_init (7 :: nat)) (PList [''build.sh'', ''--all''])
       ''build'' (None :: unit option) []
     = Inr [PList [''build.sh'', ''--all'']]
   \<and> TempdirContext_run
       (\<lambda>prog cwd env (w :: program list). Inr (w @ [prog]) :: exn + program list)
       (TempdirContext_init ''/tmp/tmpk3'') (PList [''build.sh'', ''--all''])
       ''build'' (None :: unit option) []
     = Inr [PList [''build.sh'', ''--all'']]
   \<and> PList [''build.sh'', ''--all''] \<noteq> PList [''/build/build.sh'', ''--all'']
   \<and> PList [''build.sh'', ''--all''] \<noteq> PList [''/tmp/tmpk3/build.sh'', ''--all'']"
  by (simp add: ContainerContext_run_def TempdirContext_run_def)

text \<open>
  Claim C9, amended. A command given as one string that does not start with \<open>/\<close> is
  resolved against the workspace root before it is executed: the container context puts
  \<open>/build/\<close> in front of it, the temporary-directory context joins it to the temporary
  directory. A string that starts with \<open>/\<close> and an argument list are executed as given.
\<close>

theorem run_resolves_relative_string:
  "(\<not> startswith s ''/'' \<longrightarrow>
      ContainerContext_run container_exec cself (PStr s) user environment w
        = container_exec (container cself) (PStr (''/build/'' @ s)) user environment w
    \<and> TempdirContext_run exec_and_log tself (PStr s) ''build'' environment w
        = exec_and_log (PStr (path_str (path_div (td tself) s))) (td tself) environment w)
   \<and> (startswith s ''/'' \<longrightarrow>
      ContainerContext_run container_exec cself (PStr s) user environment w
        = container_exec (container cself) (PStr s) user environment w
    \<and> TempdirContext_run exec_and_log tself (PStr s) ''build'' environment w
        = exec_and_log (PStr s) (td tself) environment w)
   \<and> ContainerContext_run container_exec cself (PList xs) user environment w
        = container_exec (container cself) (PList xs) user environment w
   \<and> TempdirContext_run exec_and_log tself (PList xs) ''build'' environment w
        = exec_and_log (PList xs) (td tself) environment w"
  by (simp add: TempdirContext_run_def ContainerContext_run_def)

theorem run_resolves_relative_string_witness:
  "\<not> startswith ''build.sh'' ''/''
   \<and> ContainerContext_run
       (\<lambda>c prog user env (w :: program list). Inr (w @ [prog]) :: exn + program list)
       (ContainerContext_init (7 :: nat)) (PStr ''build.sh'') ''build'' (None :: unit option) []
     = Inr [PStr ''/build/build.sh'']
   \<and> TempdirContext_run
       (\<lambda>prog cwd env (w :: program list). Inr (w @ [prog]) :: exn + program list)
       (TempdirContext_init ''/tmp/tmpk3'') (PStr ''build.sh'') ''build'' (None :: unit option) []
     = Inr [PStr ''/tmp/tmpk3/build.sh'']"
proof -
  have h: "\<not> startswith ''build.sh'' ''/''" by (simp add: startswith_def)
  have p: "path_str (path_div (td (TempdirContext_init ''/tmp/tmpk3'')) ''build.sh'')
           = ''/tmp/tmpk3/build.sh''"
    by (simp add: path_str_def path_div_def Path_def startswith_def TempdirContext_init_def)
  note T = run_resolves_relative_string
      [where s = "''build.sh''"
         and container_exec =
           "\<lambda>c prog user env (w :: program list). Inr (w @ [prog]) :: exn + program list"
         and exec_and_log =
           "\<lambda>prog cwd env (w :: program list). Inr (w @ [prog]) :: exn + program list"
         and cself = "ContainerContext_init (7 :: nat)"
         and tself = "TempdirContext_init ''/tmp/tmpk3''"
         and user = "''build''" and environment = "None :: unit option" and w = "[]",
       THEN conjunct1, THEN mp, OF h]
  from T p h show ?thesis by simp
qed

subsection \<open>The example paths\<close>

lemma example_td_path: "td example_td = \<lparr>is_abs = True, comps = [''tmp'', ''tmpk3'']\<rparr>"
  by (simp add: example_td_def TempdirContext_init_def Path_def startswith_def)

subsection \<open>Normalized archives\<close>

lemma normalize_member_name [simp]: "ti_name (normalize_member pins m) = ti_name m"
  by (simp add: normalize_member_def)

lemma normalize_member_tree_entry:
  "tree_entry m = tree_entry m' \<Longrightarrow> normalize_member pins m = normalize_member pins m'"
  by (cases m; cases m') (simp add: tree_entry_def normalize_member_def)

lemma normalize_members_same_set:
  assumes "file_tree xs = file_tree ys"
  shows "set (map (normalize_member pins) xs) = set (map (normalize_member pins) ys)"
proof -
  have sub: "set (map (normalize_member pins) as) \<subseteq> set (map (normalize_member pins) bs)"
    if "file_tree as = file_tree bs" for as bs
  proof
    fix x assume "x \<in> set (map (normalize_member pins) as)"
    then obtain m where m: "m \<in> set as" and x: "x = normalize_member pins m" by auto
    from m have "tree_entry m \<in> file_tree bs"
      using that by (auto simp: file_tree_def)
    then obtain m' where "m' \<in> set bs" and "tree_entry m = tree_entry m'"
      by (auto simp: file_tree_def)
    then show "x \<in> set (map (normalize_member pins) bs)"
      using x normalize_member_tree_entry [of m m' pins] by auto
  qed
  from sub [OF assms] sub [OF assms [symmetric]] show ?thesis by blast
qed

lemma normalize_tar_archive_same_tree:
  assumes tree: "file_tree xs = file_tree ys"
    and dx: "distinct (map ti_name xs)" and dy: "distinct (map ti_name ys)"
  shows "normalize_tar_archive pins xs = normalize_tar_archive pins ys"
proof -
  let ?f = "normalize_member pins"
  let ?xs = "sort_key ti_name (map ?f xs)" and ?ys = "sort_key ti_name (map ?f ys)"
  have names: "map ti_name (map ?f zs) = map ti_name zs" for zs by simp
  have dxs: "distinct (map ti_name (map ?f xs))" and dys: "distinct (map ti_name (map ?f ys))"
    using dx dy by (simp_all only: names)
  have sets: "set ?xs = set ?ys"
    using normalize_members_same_set [OF tree, of pins] by simp
  have "inj_on ti_name (set (map ?f xs))"
    using dxs by (simp only: distinct_map)
  then have inj: "inj_on ti_name (set ?xs \<union> set ?ys)"
    using sets by simp
  have d1: "distinct (map ti_name ?xs)"
    using dxs by (metis distinct_map distinct_sort set_sort)
  have d2: "distinct (map ti_name ?ys)"
    using dys by (metis distinct_map distinct_sort set_sort)
  have "?xs = ?ys"
    by (rule map_sorted_distinct_set_unique [OF inj _ d1 _ d2 sets]) (rule sorted_sort_key)+
  then show ?thesis by (simp add: normalize_tar_archive_def)
qed

text \<open>
  Claim C1. Take an archive captured from a container and an archive packed from a
  temporary directory that hold the same file tree: the same entry names, and for each
  name the same kind of entry, contents and permission bits (each name once, as in a
  file tree), whatever their order, owners, time stamps and extended headers. Then
  \<open>get_output_archive\<close> of the container context and of the temporary-directory context
  both succeed and return the same normalized archive, byte for byte.
\<close>

theorem get_output_archive_backend_independent:
  assumes "container_get_archive (container cself)
             (''/build/out'' @ (case path_c of None \<Rightarrow> []
                                | Some s \<Rightarrow> if s = [] then [] else ''/'' @ s)) w_c = Inr raw_c"
    and "parts_last (path_div (path_div (td tself) ''out'') path_t) = Inr path_prefix"
    and "create_tar_from_directory (path_div (path_div (td tself) ''out'') path_t)
           path_prefix w_t = Inr raw_t"
    and "file_tree raw_c = file_tree raw_t"
    and "distinct (map ti_name raw_c)" and "distinct (map ti_name raw_t)"
  shows "ContainerContext_get_output_archive container_get_archive pins serialize
             cself path_c as_tar w_c
           = TempdirContext_get_output_archive create_tar_from_directory pins serialize
               tself path_t as_tar w_t
         \<and> ContainerContext_get_output_archive container_get_archive pins serialize
             cself path_c as_tar w_c
           = Inr (if as_tar then TarFile (normalize_tar_archive pins raw_c)
                  else Bytes (serialize (normalize_tar_archive pins raw_c)))"
proof -
  have n: "normalize_tar_archive pins raw_c = normalize_tar_archive pins raw_t"
    using assms(4-6) by (rule normalize_tar_archive_same_tree)
  have c: "ContainerContext_get_output_archive container_get_archive pins serialize
             cself path_c as_tar w_c
           = Inr (if as_tar then TarFile (normalize_tar_archive pins raw_c)
                  else Bytes (serialize (normalize_tar_archive pins raw_c)))"
    using assms(1)
    by (simp add: ContainerContext_get_output_archive_def and_then_def Let_def)
  have t: "TempdirContext_get_output_archive create_tar_from_directory pins serialize
               tself path_t as_tar w_t
           = Inr (if as_tar then TarFile (normalize_tar_archive pins raw_t)
                  else Bytes (serialize (normalize_tar_archive pins raw_t)))"
    using assms(2,3)
    by (simp add: TempdirContext_get_output_archive_def and_then_def Let_def)
  show ?thesis using n c t by simp
qed
lemma example_archives_same_tree:
  "file_tree example_container_archive = file_tree example_tempdir_archive"
  by (auto simp: file_tree_def tree_entry_def example_container_archive_def
      example_tempdir_archive_def example_file_def)

lemma example_archives_distinct:
  "distinct (map ti_name example_container_archive)"
  "distinct (map ti_name example_tempdir_archive)"
  by (simp_all add: example_container_archive_def example_tempdir_archive_def example_file_def)

lemma example_td_out_lib:
  "path_div (path_div (td example_td) ''out'') ''lib''
     = \<lparr>is_abs = True, comps = [''tmp'', ''tmpk3'', ''out'', ''lib'']\<rparr>"
  by (simp add: example_td_path path_div_def Path_def startswith_def)

theorem get_output_archive_backend_independent_witness:
  "file_tree example_container_archive = file_tree example_tempdir_archive
   \<and> example_container_archive \<noteq> example_tempdir_archive
   \<and> ContainerContext_get_output_archive
        (\<lambda>(c :: nat) p (w :: unit).
           if p = ''/build/out/lib'' then Inr example_container_archive
           else Inl (External ''no such path''))
        example_pins example_serialize (ContainerContext_init 7) (Some ''lib'') False ()
      = TempdirContext_get_output_archive
        (\<lambda>p path_prefix (w :: unit).
           if path_str p = ''/tmp/tmpk3/out/lib'' \<and> path_prefix = ''lib''
           then Inr example_tempdir_archive else Inl (External ''no such directory''))
        example_pins example_serialize example_td ''lib'' False ()"
proof -
  have h2: "parts_last (path_div (path_div (td example_td) ''out'') ''lib'') = Inr ''lib''"
    by (simp add: example_td_out_lib parts_last_def)
  have h3: "path_str (path_div (path_div (td example_td) ''out'') ''lib'')
            = ''/tmp/tmpk3/out/lib''"
    by (simp add: example_td_out_lib path_str_def)
  have ne: "example_container_archive \<noteq> example_tempdir_archive"
    by (simp add: example_container_archive_def example_tempdir_archive_def example_file_def)
  note T = get_output_archive_backend_independent
      [where container_get_archive = "\<lambda>(c :: nat) p (w :: unit).
           if p = ''/build/out/lib'' then Inr example_container_archive
           else Inl (External ''no such path'')"
         and create_tar_from_directory = "\<lambda>p path_prefix (w :: unit).
           if path_str p = ''/tmp/tmpk3/out/lib'' \<and> path_prefix = ''lib''
           then Inr example_tempdir_archive else Inl (External ''no such directory'')"
         and cself = "ContainerContext_init 7" and path_c = "Some ''lib''" and w_c = "()"
         and raw_c = example_container_archive and tself = example_td
         and path_t = "''lib''" and path_prefix = "''lib''" and w_t = "()"
         and raw_t = example_tempdir_archive and pins = example_pins
         and serialize = example_serialize and as_tar = False, THEN conjunct1]
  have "ContainerContext_get_output_archive
        (\<lambda>(c :: nat) p (w :: unit).
           if p = ''/build/out/lib'' then Inr example_container_archive
           else Inl (External ''no such path''))
        example_pins example_serialize (ContainerContext_init 7) (Some ''lib'') False ()
      = TempdirContext_get_output_archive
        (\<lambda>p path_prefix (w :: unit).
           if path_str p = ''/tmp/tmpk3/out/lib'' \<and> path_prefix = ''lib''
           then Inr example_tempdir_archive else Inl (External ''no such directory''))
        example_pins example_serialize example_td ''lib'' False ()"
    by (rule T) (simp_all add: h2 h3 example_archives_same_tree example_archives_distinct)
  then show ?thesis using example_archives_same_tree ne by simp
qed

subsection \<open>Teardown\<close>

text \<open>
  Claim C2. Once \<open>build_environment\<close> has created its backend, the teardown runs on every
  exit of the body, whatever the outcome \<open>r\<close> of the body is, a value or an exception: for a
  container, \<open>stop\<close> with timeout 0 is applied to the world the body left and \<open>remove\<close> to
  the world \<open>stop\<close> left; for a temporary directory, \<open>cleanup\<close> is applied to the world the
  body left. The outcome of the body is the outcome of the whole scope.
\<close>

theorem build_environment_teardown_on_every_exit:
  "(containers_run cl img [''/bin/sleep'', ''86400''] True w = (Inr c, w1)
      \<and> body (ContainerCtx (ContainerContext_init c)) w1 = (r, w2)
      \<and> container_stop c 0 w2 = (Inr (), w3)
      \<and> container_remove c w3 = (Inr (), w4)
    \<longrightarrow> build_environment containers_run container_stop container_remove
          TemporaryDirectory td_cleanup (Some cl) img body w = (r, w4))
   \<and> (TemporaryDirectory w = (Inr name, w1)
      \<and> body (TempdirCtx (TempdirContext_init name)) w1 = (r, w2)
      \<and> td_cleanup name w2 = (Inr (), w3)
    \<longrightarrow> build_environment containers_run container_stop container_remove
          TemporaryDirectory td_cleanup None img body w = (r, w3))"
  by (simp add: build_environment_def try_finally_def)

theorem build_environment_teardown_on_every_exit_witness:
  "build_environment toy_containers_run toy_stop toy_remove toy_TemporaryDirectory toy_cleanup
       (Some ()) ''image'' toy_failing_body toy_start
     = (Inl (Exception ''build failed''),
        \<lparr> tw_containers = [], tw_paths = [''/home/build/cpython''],
          tw_calls = [Stop 0 0, Remove 0] \<rparr>)
   \<and> build_environment toy_containers_run toy_stop toy_remove toy_TemporaryDirectory toy_cleanup
       None ''image'' toy_failing_body toy_start
     = (Inl (Exception ''build failed''),
        \<lparr> tw_containers = [], tw_paths = [''/home/build/cpython''],
          tw_calls = [Cleanup ''/tmp/tmpk3''] \<rparr>)"
proof -
  let ?w1 = "\<lparr> tw_containers = [(0, True)], tw_paths = [''/home/build/cpython''],
               tw_calls = [] \<rparr>"
  let ?w3 = "\<lparr> tw_containers = [(0, False)], tw_paths = [''/home/build/cpython''],
               tw_calls = [Stop 0 0] \<rparr>"
  let ?w4 = "\<lparr> tw_containers = [], tw_paths = [''/home/build/cpython''],
               tw_calls = [Stop 0 0, Remove 0] \<rparr>"
  have c: "toy_containers_run () ''image'' [''/bin/sleep'', ''86400''] True toy_start
             = (Inr 0, ?w1)
           \<and> toy_failing_body (ContainerCtx (ContainerContext_init 0)) ?w1
             = (Inl (Exception ''build failed''), ?w1)
           \<and> toy_stop 0 0 ?w1 = (Inr (), ?w3)
           \<and> toy_remove 0 ?w3 = (Inr (), ?w4)"
    by (simp add: toy_containers_run_def toy_start_def toy_failing_body_def toy_stop_def
        toy_remove_def)
  let ?t1 = "\<lparr> tw_containers = [], tw_paths = [''/home/build/cpython'', ''/tmp/tmpk3''],
               tw_calls = [] \<rparr>"
  let ?t2 = "\<lparr> tw_containers = [],
               tw_paths = [''/home/build/cpython'', ''/tmp/tmpk3'', ''/tmp/tmpk3/out/a.so''],
               tw_calls = [] \<rparr>"
  let ?t3 = "\<lparr> tw_containers = [], tw_paths = [''/home/build/cpython''],
               tw_calls = [Cleanup ''/tmp/tmpk3''] \<rparr>"
  have t: "toy_TemporaryDirectory toy_start = (Inr ''/tmp/tmpk3'', ?t1)
           \<and> toy_failing_body (TempdirCtx (TempdirContext_init ''/tmp/tmpk3'')) ?t1
             = (Inl (Exception ''build failed''), ?t2)
           \<and> toy_cleanup ''/tmp/tmpk3'' ?t2 = (Inr (), ?t3)"
    by (simp add: toy_TemporaryDirectory_def toy_start_def toy_failing_body_def toy_cleanup_def
        TempdirContext_init_def path_str_def path_div_def Path_def startswith_def)
  note T = build_environment_teardown_on_every_exit
      [where containers_run = toy_containers_run and container_stop = toy_stop
         and container_remove = toy_remove and TemporaryDirectory = toy_TemporaryDirectory
         and td_cleanup = toy_cleanup and body = toy_failing_body and w = toy_start
         and img = "''image''" and r = "Inl (Exception ''build failed'')"]
  from T [where cl = "()" and c = 0 and ?w1.0 = ?w1 and ?w2.0 = ?w1 and ?w3.0 = ?w3
            and ?w4.0 = ?w4, THEN conjunct1, THEN mp, OF c]
       T [where name = "''/tmp/tmpk3''" and ?w1.0 = ?t1 and ?w2.0 = ?t2 and ?w3.0 = ?t3,
          THEN conjunct2, THEN mp, OF t]
  show ?thesis by simp
qed

subsection \<open>Enumerating output files\<close>

lemma os_walk_nondirs_names:
  "names_ok n \<Longrightarrow> (r, ds, fs) \<in> set (os_walk visit t n) \<Longrightarrow> f \<in> set fs
     \<Longrightarrow> f \<noteq> [] \<and> CHR ''/'' \<notin> set f"
proof (induction visit t n arbitrary: r ds fs rule: os_walk.induct)
  case (1 visit top_dir b)
  then show ?case by simp
next
  case (2 visit top_dir es)
  let ?dirs = "visit (map fst (filter (\<lambda>e. is_dir (snd e)) es))"
  let ?nondirs = "map fst (filter (\<lambda>e. \<not> is_dir (snd e)) es)"
  from "2.prems"(2) consider
      (here) "fs = ?nondirs"
    | (below) d x where "d \<in> set ?dirs" and "map_of es d = Some x"
        and "(r, ds, fs) \<in> set (os_walk visit (os_path_join top_dir d) x)"
    by (auto simp: Let_def split: option.splits) metis
  then show ?case
  proof cases
    case here
    with "2.prems"(3) obtain e where "e \<in> set es" and "f = fst e" by auto
    with "2.prems"(1) show ?thesis by auto
  next
    case below
    from below(2) have "(d, x) \<in> set es" by (rule map_of_SomeD)
    with "2.prems"(1) have "names_ok x" by auto
    from "2.IH" [OF refl refl below(1) below(2) this below(3) "2.prems"(3)]
    show ?thesis .
  qed
qed

lemma lookup_names_ok:
  "lookup cur anc cs = Inr n \<Longrightarrow> names_ok cur \<Longrightarrow> list_all names_ok anc \<Longrightarrow> names_ok n"
proof (induction cur anc cs rule: lookup.induct)
  case (1 cur anc)
  then show ?case by simp
next
  case (2 cur anc c cs)
  show ?case
  proof (cases cur)
    case (File b)
    with "2.prems"(1) show ?thesis by simp
  next
    case (Dir es)
    show ?thesis
    proof (cases "c = ''..''")
      case up: True
      show ?thesis
      proof (cases anc)
        case Nil
        with "2.prems" Dir up "2.IH"(1) [OF Dir up Nil] show ?thesis by simp
      next
        case (Cons a as)
        with "2.prems" Dir up "2.IH"(2) [OF Dir up Cons] show ?thesis by simp
      qed
    next
      case down: False
      with "2.prems"(1) Dir obtain x where x: "map_of es c = Some x"
        and l: "lookup x (cur # anc) cs = Inr n"
        by (auto split: option.splits)
      from x have "(c, x) \<in> set es" by (rule map_of_SomeD)
      with "2.prems"(2) Dir have "names_ok x" by auto
      with "2.IH"(3) [OF Dir down x l] "2.prems"(2,3) show ?thesis by simp
    qed
  qed
qed

lemma same_entries_is_dir: "same_entries x y \<Longrightarrow> is_dir x = is_dir y"
  by (cases x; cases y) (simp_all add: is_dir_def)

lemma same_entries_names:
  assumes "same_entries (Dir es) (Dir fs)"
  shows "sort (map fst (filter (\<lambda>e. P (is_dir (snd e))) es))
         = sort (map fst (filter (\<lambda>e. P (is_dir (snd e))) fs))"
proof -
  from assms have de: "distinct (map fst es)" and df: "distinct (map fst fs)"
    and names: "set (map fst es) = set (map fst fs)"
    and sub: "\<And>e f. e \<in> set es \<Longrightarrow> f \<in> set fs \<Longrightarrow> fst e = fst f
                 \<Longrightarrow> same_entries (snd e) (snd f)"
    by auto
  have half: "set (map fst (filter (\<lambda>e. P (is_dir (snd e))) as))
              \<subseteq> set (map fst (filter (\<lambda>e. P (is_dir (snd e))) bs))"
    if n: "set (map fst as) = set (map fst bs)"
      and s: "\<And>e f. e \<in> set as \<Longrightarrow> f \<in> set bs \<Longrightarrow> fst e = fst f
                 \<Longrightarrow> is_dir (snd e) = is_dir (snd f)"
    for as bs :: "(string \<times> node) list"
  proof
    fix x assume "x \<in> set (map fst (filter (\<lambda>e. P (is_dir (snd e))) as))"
    then obtain e where e: "e \<in> set as" "P (is_dir (snd e))" "x = fst e" by auto
    then have "x \<in> set (map fst bs)" using n by auto
    then obtain f where f: "f \<in> set bs" "x = fst f" by auto
    with e s [of e f] have "P (is_dir (snd f))" by simp
    with f show "x \<in> set (map fst (filter (\<lambda>e. P (is_dir (snd e))) bs))" by auto
  qed
  have isd: "is_dir (snd e) = is_dir (snd f)"
    if "e \<in> set es" and "f \<in> set fs" and "fst e = fst f" for e f
    using sub [OF that] by (rule same_entries_is_dir)
  have "set (map fst (filter (\<lambda>e. P (is_dir (snd e))) es))
        = set (map fst (filter (\<lambda>e. P (is_dir (snd e))) fs))"
  proof
    show "set (map fst (filter (\<lambda>e. P (is_dir (snd e))) es))
          \<subseteq> set (map fst (filter (\<lambda>e. P (is_dir (snd e))) fs))"
      by (rule half [OF names]) (rule isd)
    show "set (map fst (filter (\<lambda>e. P (is_dir (snd e))) fs))
          \<subseteq> set (map fst (filter (\<lambda>e. P (is_dir (snd e))) es))"
      by (rule half [OF names [symmetric]]) (simp add: isd)
  qed
  moreover have "distinct (map fst (filter (\<lambda>e. P (is_dir (snd e))) es))"
    and "distinct (map fst (filter (\<lambda>e. P (is_dir (snd e))) fs))"
    using de df by (simp_all add: distinct_map_filter)
  ultimately show ?thesis
    by (intro sorted_distinct_set_unique) simp_all
qed
lemma os_walk_same_entries:
  "visit = sort \<Longrightarrow> same_entries n n' \<Longrightarrow>
     map (\<lambda>(r, ds, fs). (r, ds, sort fs)) (os_walk visit t n)
       = map (\<lambda>(r, ds, fs). (r, ds, sort fs)) (os_walk visit t n')"
proof (induction visit t n arbitrary: n' rule: os_walk.induct)
  case (1 visit top_dir b)
  then show ?case by (cases n') simp_all
next
  case (2 visit top_dir es)
  from "2.prems"(2) obtain fs where n': "n' = Dir fs" by (cases n') simp_all
  note se = "2.prems"(2) [unfolded n']
  from se have de: "distinct (map fst es)" and df: "distinct (map fst fs)"
    and names: "set (map fst es) = set (map fst fs)"
    and sub: "\<And>e f. e \<in> set es \<Longrightarrow> f \<in> set fs \<Longrightarrow> fst e = fst f
                 \<Longrightarrow> same_entries (snd e) (snd f)"
    by auto
  let ?key = "\<lambda>(r, ds, fs). (r :: string, ds :: string list, sort fs :: string list)"
  let ?dirs = "visit (map fst (filter (\<lambda>e. is_dir (snd e)) es))"
  let ?g = "\<lambda>xs d. case map_of xs d of None \<Rightarrow> []
                     | Some x \<Rightarrow> os_walk visit (os_path_join top_dir d) x"
  have dirs: "?dirs = visit (map fst (filter (\<lambda>e. is_dir (snd e)) fs))"
    using same_entries_names [OF se, of "\<lambda>b. b"] "2.prems"(1) by simp
  have nondirs: "sort (map fst (filter (\<lambda>e. \<not> is_dir (snd e)) es))
                 = sort (map fst (filter (\<lambda>e. \<not> is_dir (snd e)) fs))"
    using same_entries_names [OF se, of Not] by simp
  have below: "map ?key (?g es d) = map ?key (?g fs d)" if d: "d \<in> set ?dirs" for d
  proof -
    from d "2.prems"(1) obtain x where x: "(d, x) \<in> set es" by auto
    then have "d \<in> set (map fst fs)" using names by force
    then obtain y where y: "(d, y) \<in> set fs" by auto
    from x de have mx: "map_of es d = Some x" by simp
    from y df have my: "map_of fs d = Some y" by simp
    from sub [OF x y] have "same_entries x y" by simp
    from "2.IH" [OF refl refl d mx "2.prems"(1) this]
    have "map ?key (os_walk visit (os_path_join top_dir d) x)
          = map ?key (os_walk visit (os_path_join top_dir d) y)"
      by simp
    then show ?thesis using mx my by simp
  qed
  have "map (\<lambda>d. map ?key (?g es d)) ?dirs = map (\<lambda>d. map ?key (?g fs d)) ?dirs"
    by (rule map_cong [OF refl]) (rule below)
  then have "map ?key (concat (map (?g es) ?dirs)) = map ?key (concat (map (?g fs) ?dirs))"
    by (simp only: map_concat map_map o_def)
  then show ?case
    using dirs nondirs by (simp add: n' Let_def)
qed
lemma example_td_out_lib_str:
  "path_str (path_div (path_div (td example_td) ''out'') ''lib'') = ''/tmp/tmpk3/out/lib''"
  by (simp add: example_td_path path_div_def Path_def startswith_def path_str_def)

lemma example_base_comps:
  "comps (Path ''/tmp/tmpk3/out/lib'') = [''tmp'', ''tmpk3'', ''out'', ''lib'']"
  by (simp add: Path_def)

lemma example_find_so:
  "TempdirContext_find_output_files example_fs example_td ''lib'' ''*.so'' = [''a.so'', ''sub/b.so'']"
  by (simp add: TempdirContext_find_output_files_def example_td_out_lib_str example_base_comps
      example_fs_def example_out_def is_dir_def os_path_join_def startswith_def fnmatch_def
      less_eq_char_def less_char_def)

lemma example_find_so_later:
  "TempdirContext_find_output_files example_fs_later example_td ''lib'' ''*.so''
     = [''a.so'', ''sub/b.so'']"
  by (simp add: TempdirContext_find_output_files_def example_td_out_lib_str example_base_comps
      example_fs_later_def is_dir_def os_path_join_def startswith_def fnmatch_def
      less_eq_char_def less_char_def)

lemma tempdir_find_same_output_directory:
  assumes "same_output_directory fs fs' self base_path"
  shows "TempdirContext_find_output_files fs self base_path pattern
         = TempdirContext_find_output_files fs' self base_path pattern"
proof -
  let ?base = "path_str (path_div (path_div (td self) ''out'') base_path)"
  let ?walk = "\<lambda>fs. case lookup fs [] (comps (Path ?base)) of
                       Inl _ \<Rightarrow> [] | Inr n \<Rightarrow> os_walk sort ?base n"
  let ?key = "\<lambda>(r, ds, fs). (r :: string, ds :: string list, sort fs :: string list)"
  let ?out = "\<lambda>(root, dirs :: string list, files).
                map (\<lambda>f. drop (length ?base + 1) (os_path_join root f))
                  (filter (\<lambda>f. fnmatch f pattern) files)"
  have walk: "map ?key (?walk fs) = map ?key (?walk fs')"
  proof (cases "lookup fs [] (comps (Path ?base))")
    case (Inl e)
    with assms show ?thesis
      by (simp add: same_output_directory_def Let_def split: sum.splits)
  next
    case (Inr n)
    with assms obtain n' where n': "lookup fs' [] (comps (Path ?base)) = Inr n'"
      and "n = n' \<or> same_entries n n'"
      by (auto simp: same_output_directory_def Let_def split: sum.splits)
    then have "map ?key (os_walk sort ?base n) = map ?key (os_walk sort ?base n')"
      using os_walk_same_entries [OF refl, of n n' ?base] by blast
    then show ?thesis using Inr n' by simp
  qed
  have find: "TempdirContext_find_output_files h self base_path pattern
              = concat (map ?out (map ?key (?walk h)))" for h
    by (simp add: TempdirContext_find_output_files_def Let_def split_def o_def)
  show ?thesis by (simp only: find walk)
qed

text \<open>
  Claim C4 asks for the sorted order on both backends. The container context yields the
  lines of \<open>find\<close> in the order \<open>find\<close> printed them and sorts nothing: when \<open>find\<close> lists
  \<open>lib/sub/b.so\<close> before \<open>lib/a.so\<close>, as a directory that returns \<open>sub\<close> first makes
  it do, the result is \<open>[sub/b.so, a.so]\<close>. The temporary-directory context sorts, and
  returns \<open>[a.so, sub/b.so]\<close> for the same tree listed in that same order.
\<close>

theorem container_find_output_files_keeps_find_order:
  "ContainerContext_find_output_files
       (\<lambda>(c :: nat) command user (w :: unit).
          Inr (0, ''/build/out/lib/sub/b.so'' @ [CHR 0x0A] @ ''/build/out/lib/a.so'' @ [CHR 0x0A]))
       (ContainerContext_init 7) ''lib'' ''*.so'' ()
     = Inr [''sub/b.so'', ''a.so'']
   \<and> TempdirContext_find_output_files example_fs example_td ''lib'' ''*.so''
     = [''a.so'', ''sub/b.so'']"
  by (simp add: ContainerContext_find_output_files_def and_then_def splitlines_def is_space_def
      decode_ascii_def ContainerContext_init_def example_find_so)

text \<open>
  Claim C5. Two calls of \<open>find_output_files\<close> with the same arguments return the same
  sequence when the output directory is unchanged between them. In the
  temporary-directory context the result is read from the host alone and depends only on
  the entries of \<open>out/base_path\<close>: the rest of the host may have changed, and the
  directories may list their entries in another order the second time. In the container
  context the result is computed from the output of the \<open>find\<close> command alone. Neither
  call leaves anything behind in the context.
\<close>

theorem find_output_files_repeatable:
  "(same_output_directory fs fs' tself base_path \<longrightarrow>
      TempdirContext_find_output_files fs tself base_path pattern
        = TempdirContext_find_output_files fs' tself base_path pattern)
   \<and> (exec_run (container cself)
          [''/usr/bin/find'', ''/build/out/'' @ base_path, ''-name'', pattern] ''build'' w
        = exec_run (container cself)
            [''/usr/bin/find'', ''/build/out/'' @ base_path, ''-name'', pattern] ''build'' w'
      \<longrightarrow> ContainerContext_find_output_files exec_run cself base_path pattern w
        = ContainerContext_find_output_files exec_run cself base_path pattern w')"
  using tempdir_find_same_output_directory [of fs fs' tself base_path pattern]
  by (simp add: ContainerContext_find_output_files_def)

theorem find_output_files_repeatable_witness:
  "same_output_directory example_fs example_fs_later example_td ''lib''
   \<and> example_fs \<noteq> example_fs_later
   \<and> TempdirContext_find_output_files example_fs example_td ''lib'' ''*.so''
      = TempdirContext_find_output_files example_fs_later example_td ''lib'' ''*.so''
   \<and> TempdirContext_find_output_files example_fs_later example_td ''lib'' ''*.so''
      = [''a.so'', ''sub/b.so'']"
proof -
  have h: "same_output_directory example_fs example_fs_later example_td ''lib''"
    by (auto simp: same_output_directory_def example_td_out_lib_str example_base_comps
        example_fs_def example_out_def example_fs_later_def)
  have ne: "example_fs \<noteq> example_fs_later"
    by (simp add: example_fs_def example_fs_later_def)
  from find_output_files_repeatable [where fs = example_fs and fs' = example_fs_later
         and tself = example_td and base_path = "''lib''" and pattern = "''*.so''",
         THEN conjunct1, THEN mp, OF h]
       h ne example_find_so_later
  show ?thesis by simp
qed

lemma glob_match_literal_separator:
  "glob_match pat name \<Longrightarrow> literal_separator pat \<Longrightarrow> CHR ''/'' \<in> set name"
proof (induction pat name rule: glob_match.induct)
  case (1 name)
  then show ?case by simp
next
  case (2 p ps name)
  show ?case
  proof (cases "p = CHR ''*''")
    case star: True
    then have ls: "literal_separator ps" using "2.prems"(2) by simp
    show ?thesis
    proof (cases "glob_match ps name")
      case True
      then show ?thesis using "2.IH"(1) [OF star] ls by blast
    next
      case False
      with "2.prems"(1) star obtain c cs where n: "name = c # cs"
        and m: "glob_match (p # ps) cs"
        by (auto split: list.splits)
      have "CHR ''/'' \<in> set cs"
        using "2.IH"(2) [OF star False n m "2.prems"(2)] .
      then show ?thesis using n by simp
    qed
  next
    case nostar: False
    show ?thesis
    proof (cases "p = CHR ''?''")
      case q: True
      then have ls: "literal_separator ps" using "2.prems"(2) by simp
      from "2.prems"(1) nostar q obtain c cs where n: "name = c # cs"
        and m: "glob_match ps cs"
        by (auto split: list.splits)
      have "CHR ''/'' \<in> set cs"
        using "2.IH"(3) [OF nostar q n m ls] .
      then show ?thesis using n by simp
    next
      case noq: False
      show ?thesis
      proof (cases "p = CHR ''[''")
        case br: True
        show ?thesis
        proof (cases "bracket_end ps")
          case None
          then have ls: "literal_separator ps" using "2.prems"(2) br by simp
          from "2.prems"(1) nostar noq br None obtain c cs where n: "name = c # cs"
            and m: "glob_match ps cs"
            by (auto split: list.splits)
          have "CHR ''/'' \<in> set cs"
            using "2.IH"(4) [OF nostar noq br None n m ls] .
          then show ?thesis using n by simp
        next
          case (Some x2)
          obtain stuff rest where x2: "(stuff, rest) = x2" by (cases x2) simp
          then have ls: "literal_separator rest" using "2.prems"(2) br Some by auto
          from "2.prems"(1) nostar noq br Some x2 obtain c cs where n: "name = c # cs"
            by (cases name) auto
          with "2.prems"(1) nostar noq br Some x2 have m: "glob_match rest cs"
            by auto
          have "CHR ''/'' \<in> set cs"
            using "2.IH"(5) [OF nostar noq br Some x2 n m ls] .
          then show ?thesis using n by simp
        qed
      next
        case nobr: False
        from "2.prems"(1) nostar noq nobr obtain c cs where n: "name = c # cs"
          and c: "c = p" and m: "glob_match ps cs"
          by (auto split: list.splits)
        show ?thesis
        proof (cases "p = CHR ''/''")
          case True
          then show ?thesis using n c by simp
        next
          case False
          then have ls: "literal_separator ps" using "2.prems"(2) nobr by simp
          have "CHR ''/'' \<in> set cs"
            using "2.IH"(6) [OF nostar noq nobr n m ls] .
          then show ?thesis using n by simp
        qed
      qed
    qed
  qed
qed

lemma literal_separator_no_bracket:
  "CHR ''/'' \<in> set pat \<Longrightarrow> CHR ''['' \<notin> set pat \<Longrightarrow> literal_separator pat"
  by (induction pat) auto

lemma tempdir_find_no_match:
  assumes "\<And>f. \<not> (f \<noteq> [] \<and> CHR ''/'' \<notin> set f \<and> fnmatch f pattern)"
    and "names_ok fs"
  shows "TempdirContext_find_output_files fs self base_path pattern = []"
proof -
  let ?base = "path_str (path_div (path_div (td self) ''out'') base_path)"
  have "filter (\<lambda>f. fnmatch f pattern) (sort files) = []"
    if "(root, dirs, files) \<in> set (os_walk sort ?base n)"
      and "lookup fs [] (comps (Path ?base)) = Inr n" for root dirs files n
  proof -
    from that(2) assms(2) have "names_ok n"
      by (rule lookup_names_ok) simp
    then have "f \<noteq> [] \<and> CHR ''/'' \<notin> set f" if "f \<in> set files" for f
      using os_walk_nondirs_names \<open>(root, dirs, files) \<in> set (os_walk sort ?base n)\<close> that
      by blast
    with assms(1) show ?thesis by (auto simp: filter_empty_conv)
  qed
  then show ?thesis
    by (auto simp: TempdirContext_find_output_files_def Let_def split: sum.splits)
qed

text \<open>
  Claim C10 says that a pattern with a path separator in it matches no file. A set in
  brackets may hold the separator: \<open>[/a].so\<close> has one and selects \<open>a.so\<close>.
\<close>

theorem find_output_files_separator_in_set_matches:
  "CHR ''/'' \<in> set ''[/a].so''
   \<and> TempdirContext_find_output_files example_fs example_td ''lib'' ''[/a].so'' = [''a.so'']"
  by (simp add: TempdirContext_find_output_files_def example_td_out_lib_str example_base_comps
      example_fs_def example_out_def is_dir_def os_path_join_def startswith_def fnmatch_def
      less_eq_char_def less_char_def bracket_end_def in_class_def)

text \<open>
  Claim C10, amended. In the temporary-directory context \<open>find_output_files\<close> matches the
  pattern against the name of each file as its directory lists it, never against a path:
  a path is yielded exactly when it is the path, relative to the base, of a file that
  \<open>os.walk\<close> lists in some directory under the base and whose name matches. So a pattern
  with a path separator outside every bracket expression selects nothing (names hold no
  separator); a pattern with a separator and no bracket at all is such a pattern. The
  container context hands the pattern to \<open>find -name\<close> and yields what \<open>find\<close> prints.
\<close>

theorem find_output_files_matches_names:
  "(base = path_str (path_div (path_div (td tself) ''out'') base_path)
      \<and> walk = (case lookup fs [] (comps (Path base)) of
                   Inl _ \<Rightarrow> [] | Inr n \<Rightarrow> os_walk sort base n)
    \<longrightarrow> (r \<in> set (TempdirContext_find_output_files fs tself base_path pattern)
          \<longleftrightarrow> (\<exists>root dirs files f.
                 (root, dirs, files) \<in> set walk \<and> f \<in> set files \<and> fnmatch f pattern
                 \<and> r = drop (length base + 1) (os_path_join root f))))
   \<and> (literal_separator pattern \<and> names_ok fs
    \<longrightarrow> TempdirContext_find_output_files fs tself base_path pattern = [])
   \<and> (CHR ''/'' \<in> set pattern \<and> CHR ''['' \<notin> set pattern \<longrightarrow> literal_separator pattern)
   \<and> (exec_run (container cself)
          [''/usr/bin/find'', ''/build/out/'' @ base_path, ''-name'', pattern] ''build'' w
        = Inr (code, out)
    \<longrightarrow> ContainerContext_find_output_files exec_run cself base_path pattern w
        = collect (map (\<lambda>line. decode_ascii
                                 (drop (length (''/build/out/'' @ base_path @ ''/'')) line))
                     (filter (\<lambda>line. \<not> list_all is_space line) (splitlines out))))"
proof -
  have a: "r \<in> set (TempdirContext_find_output_files fs tself base_path pattern)
          \<longleftrightarrow> (\<exists>root dirs files f.
                 (root, dirs, files) \<in> set walk \<and> f \<in> set files \<and> fnmatch f pattern
                 \<and> r = drop (length base + 1) (os_path_join root f))"
    if "base = path_str (path_div (path_div (td tself) ''out'') base_path)"
      and "walk = (case lookup fs [] (comps (Path base)) of
                   Inl _ \<Rightarrow> [] | Inr n \<Rightarrow> os_walk sort base n)"
    unfolding that TempdirContext_find_output_files_def Let_def
    by (auto simp: image_iff)
  have b: "TempdirContext_find_output_files fs tself base_path pattern = []"
    if "literal_separator pattern" and "names_ok fs"
  proof (rule tempdir_find_no_match [OF _ that(2)])
    fix f
    show "\<not> (f \<noteq> [] \<and> CHR ''/'' \<notin> set f \<and> fnmatch f pattern)"
      using glob_match_literal_separator [of pattern f] that(1) by (auto simp: fnmatch_def)
  qed
  have b': "literal_separator pattern"
    if "CHR ''/'' \<in> set pattern" and "CHR ''['' \<notin> set pattern"
    using that by (rule literal_separator_no_bracket)
  have c: "ContainerContext_find_output_files exec_run cself base_path pattern w
        = collect (map (\<lambda>line. decode_ascii
                                 (drop (length (''/build/out/'' @ base_path @ ''/'')) line))
                     (filter (\<lambda>line. \<not> list_all is_space line) (splitlines out)))"
    if "exec_run (container cself)
          [''/usr/bin/find'', ''/build/out/'' @ base_path, ''-name'', pattern] ''build'' w
        = Inr (code, out)"
    using that by (simp add: ContainerContext_find_output_files_def and_then_def)
  from a b b' c show ?thesis by blast
qed

theorem find_output_files_matches_names_witness:
  "literal_separator ''sub/[ab].so'' \<and> names_ok example_fs
   \<and> TempdirContext_find_output_files example_fs example_td ''lib'' ''sub/[ab].so'' = []
   \<and> CHR ''/'' \<in> set ''sub/*.so'' \<and> CHR ''['' \<notin> set ''sub/*.so''
   \<and> TempdirContext_find_output_files example_fs example_td ''lib'' ''sub/*.so'' = []
   \<and> \<not> literal_separator ''[/a].so''
   \<and> TempdirContext_find_output_files example_fs example_td ''lib'' ''*.so''
      = [''a.so'', ''sub/b.so'']"
proof -
  have h: "literal_separator ''sub/[ab].so'' \<and> names_ok example_fs"
    by (simp add: example_fs_def example_out_def bracket_end_def)
  have g: "CHR ''/'' \<in> set ''sub/*.so'' \<and> CHR ''['' \<notin> set ''sub/*.so''"
    by simp
  note T1 = find_output_files_matches_names
      [where fs = example_fs and tself = example_td and base_path = "''lib''"
         and pattern = "''sub/[ab].so''", THEN conjunct2]
  note T2 = find_output_files_matches_names
      [where fs = example_fs and tself = example_td and base_path = "''lib''"
         and pattern = "''sub/*.so''", THEN conjunct2]
  have h': "literal_separator ''sub/*.so'' \<and> names_ok example_fs"
    using T2 [THEN conjunct2, THEN conjunct1, THEN mp, OF g] h
    by simp
  have n: "\<not> literal_separator ''[/a].so''"
    by (simp add: bracket_end_def)
  from T1 [THEN conjunct1, THEN mp, OF h]
       T2 [THEN conjunct1, THEN mp, OF h']
       h g n example_find_so
  show ?thesis by simp
qed

subsection \<open>Reading one file\<close>

text \<open>
  Claim C8 says that \<open>get_file\<close> fails with a not-found error whenever the path is not a
  regular file. In the temporary-directory context a path that is a directory fails with
  \<open>IsADirectoryError\<close>, the error of \<open>open\<close>, which is not a not-found error; and a path
  that is a device does not fail at all, it is read: \<open>/dev/null\<close> gives no bytes.
\<close>

theorem get_file_directory_and_device:
  "TempdirContext_get_file host_open_read example_td ''out/lib'' example_host
     = Inl IsADirectoryError
   \<and> \<not> not_found_error IsADirectoryError
   \<and> TempdirContext_get_file host_open_read example_td ''/dev/null'' example_host = Inr []"
  by (simp add: TempdirContext_get_file_def host_open_read_def example_td_path path_div_def
      Path_def startswith_def path_str_def example_host_def and_then_def not_found_error_def)

text \<open>
  Claim C8, amended. \<open>get_file\<close> returns the bytes of exactly one file, or fails, and
  not always with a not-found error. In the temporary-directory context its outcome is
  the outcome of opening the path, joined to the temporary directory, for reading and
  reading it: the bytes read, or the exception raised. In the container context it
  returns the contents of the first member of the archive retrieved for \<open>/build/path\<close>
  when that member is a regular file and what the link target gives when it is a link; it
  fails with \<open>file not found\<close> when the archive has no member, it fails (with the
  \<open>AttributeError\<close> of reading \<open>None\<close>) when the first member is a directory or another
  member without data, and it passes on the exception of the retrieval.
\<close>

theorem get_file_outcomes:
  "TempdirContext_get_file open_read tself path h = open_read (path_div (td tself) path) h
   \<and> (container_get_archive (container cself) (''/build/'' @ path) w = Inr (ti # tis)
        \<and> ti_type ti = REGTYPE \<longrightarrow>
        ContainerContext_get_file container_get_archive link_target cself path w
          = Inr (ti_data ti))
   \<and> (container_get_archive (container cself) (''/build/'' @ path) w = Inr (ti # tis)
        \<and> (ti_type ti = LNKTYPE \<or> ti_type ti = SYMTYPE) \<longrightarrow>
        ContainerContext_get_file container_get_archive link_target cself path w
          = and_then (link_target (ti # tis) ti) read_fileobj)
   \<and> (container_get_archive (container cself) (''/build/'' @ path) w = Inr (ti # tis)
        \<and> (ti_type ti = DIRTYPE \<or> ti_type ti = OTHERTYPE) \<longrightarrow>
        ContainerContext_get_file container_get_archive link_target cself path w
          = Inl AttributeError)
   \<and> (container_get_archive (container cself) (''/build/'' @ path) w = Inr [] \<longrightarrow>
        ContainerContext_get_file container_get_archive link_target cself path w
          = Inl (Exception ''file not found''))
   \<and> (container_get_archive (container cself) (''/build/'' @ path) w = Inl e \<longrightarrow>
        ContainerContext_get_file container_get_archive link_target cself path w = Inl e)"
proof -
  have t: "TempdirContext_get_file open_read tself path h
           = open_read (path_div (td tself) path) h"
    by (simp add: TempdirContext_get_file_def)
  have c1: "container_get_archive (container cself) (''/build/'' @ path) w = Inr (ti # tis)
        \<and> ti_type ti = REGTYPE \<longrightarrow>
        ContainerContext_get_file container_get_archive link_target cself path w
          = Inr (ti_data ti)"
    by (simp add: ContainerContext_get_file_def and_then_def extractfile_def read_fileobj_def)
  have c2: "container_get_archive (container cself) (''/build/'' @ path) w = Inr (ti # tis)
        \<and> (ti_type ti = LNKTYPE \<or> ti_type ti = SYMTYPE) \<longrightarrow>
        ContainerContext_get_file container_get_archive link_target cself path w
          = and_then (link_target (ti # tis) ti) read_fileobj"
    by (auto simp: ContainerContext_get_file_def and_then_def extractfile_def)
  have c3: "container_get_archive (container cself) (''/build/'' @ path) w = Inr (ti # tis)
        \<and> (ti_type ti = DIRTYPE \<or> ti_type ti = OTHERTYPE) \<longrightarrow>
        ContainerContext_get_file container_get_archive link_target cself path w
          = Inl AttributeError"
    by (auto simp: ContainerContext_get_file_def and_then_def extractfile_def read_fileobj_def)
  have c4: "container_get_archive (container cself) (''/build/'' @ path) w = Inr [] \<longrightarrow>
        ContainerContext_get_file container_get_archive link_target cself path w
          = Inl (Exception ''file not found'')"
    by (simp add: ContainerContext_get_file_def and_then_def)
  have c5: "container_get_archive (container cself) (''/build/'' @ path) w = Inl e \<longrightarrow>
        ContainerContext_get_file container_get_archive link_target cself path w = Inl e"
    by (simp add: ContainerContext_get_file_def and_then_def)
  show ?thesis using t c1 c2 c3 c4 c5 by blast
qed

theorem get_file_outcomes_witness:
  "TempdirContext_get_file host_open_read example_td ''out/lib/a.so'' example_host = Inr ''aaa''
   \<and> TempdirContext_get_file host_open_read example_td ''out/lib/b.so'' example_host
      = Inl FileNotFoundError
   \<and> TempdirContext_get_file host_open_read example_td ''out/lib/a.so/x'' example_host
      = Inl NotADirectoryError
   \<and> TempdirContext_get_file host_open_read example_td [CHR ''a'', CHR 0x00] example_host
      = Inl ValueError
   \<and> ContainerContext_get_file
        (\<lambda>(c :: nat) p (w :: unit).
           if p = ''/build/out/lib/a.so''
           then Inr [example_file ''a.so'' ''aaa'' 1000 ''build'' 1670000001 []] else Inr [])
        (\<lambda>tf ti. Inl (KeyError (ti_linkname ti))) (ContainerContext_init 7)
        ''out/lib/a.so'' () = Inr ''aaa''
   \<and> ContainerContext_get_file
        (\<lambda>(c :: nat) p (w :: unit).
           if p = ''/build/out/lib/a.so''
           then Inr [example_file ''a.so'' ''aaa'' 1000 ''build'' 1670000001 []] else Inr [])
        (\<lambda>tf ti. Inl (KeyError (ti_linkname ti))) (ContainerContext_init 7)
        ''out/lib/b.so'' () = Inl (Exception ''file not found'')
   \<and> ContainerContext_get_file
        (\<lambda>(c :: nat) p (w :: unit).
           Inr [(example_file ''lib'' [] 1000 ''build'' 1670000001 [])\<lparr>ti_type := DIRTYPE\<rparr>,
                example_file ''lib/a.so'' ''aaa'' 1000 ''build'' 1670000001 []])
        (\<lambda>tf ti. Inl (KeyError (ti_linkname ti))) (ContainerContext_init 7)
        ''out/lib'' () = Inl AttributeError"
proof -
  note T = get_file_outcomes [where open_read = host_open_read, THEN conjunct1]
  have "TempdirContext_get_file host_open_read example_td ''out/lib/a.so'' example_host
        = Inr ''aaa''"
    by (simp add: T host_open_read_def example_td_path path_div_def Path_def startswith_def
        path_str_def example_host_def and_then_def)
  moreover have "TempdirContext_get_file host_open_read example_td ''out/lib/b.so''
      example_host = Inl FileNotFoundError"
    by (simp add: T host_open_read_def example_td_path path_div_def Path_def startswith_def
        path_str_def example_host_def and_then_def)
  moreover have "TempdirContext_get_file host_open_read example_td ''out/lib/a.so/x''
      example_host = Inl NotADirectoryError"
    by (simp add: T host_open_read_def example_td_path path_div_def Path_def startswith_def
        path_str_def example_host_def and_then_def)
  moreover have "TempdirContext_get_file host_open_read example_td [CHR ''a'', CHR 0x00]
      example_host = Inl ValueError"
    by (simp add: T host_open_read_def example_td_path path_div_def Path_def startswith_def
        path_str_def)
  moreover have "ContainerContext_get_file
        (\<lambda>(c :: nat) p (w :: unit).
           if p = ''/build/out/lib/a.so''
           then Inr [example_file ''a.so'' ''aaa'' 1000 ''build'' 1670000001 []] else Inr [])
        (\<lambda>tf ti. Inl (KeyError (ti_linkname ti))) (ContainerContext_init 7)
        ''out/lib/a.so'' () = Inr ''aaa''"
    by (simp add: ContainerContext_get_file_def and_then_def extractfile_def read_fileobj_def
        example_file_def)
  moreover have "ContainerContext_get_file
        (\<lambda>(c :: nat) p (w :: unit).
           if p = ''/build/out/lib/a.so''
           then Inr [example_file ''a.so'' ''aaa'' 1000 ''build'' 1670000001 []] else Inr [])
        (\<lambda>tf ti. Inl (KeyError (ti_linkname ti))) (ContainerContext_init 7)
        ''out/lib/b.so'' () = Inl (Exception ''file not found'')"
    by (simp add: ContainerContext_get_file_def and_then_def)
  moreover have "ContainerContext_get_file
        (\<lambda>(c :: nat) p (w :: unit).
           Inr [(example_file ''lib'' [] 1000 ''build'' 1670000001 [])\<lparr>ti_type := DIRTYPE\<rparr>,
                example_file ''lib/a.so'' ''aaa'' 1000 ''build'' 1670000001 []])
        (\<lambda>tf ti. Inl (KeyError (ti_linkname ti))) (ContainerContext_init 7)
        ''out/lib'' () = Inl AttributeError"
    by (simp add: ContainerContext_get_file_def and_then_def extractfile_def read_fileobj_def
        example_file_def)
  ultimately show ?thesis by simp
qed

end
